theory Spec2Isabelle
  imports Complex_Main "HOL-Library.Multiset" "HOL-Library.Sublist"
begin

section \<open>JavaScript numbers\<close>

text \<open>
  The dashboard computes with JavaScript numbers, which are IEEE 754 doubles. A number is
  modelled as a finite rational or one of the three special values. Two things are
  idealised and stated here once: finite arithmetic is exact (a result is not rounded to
  a double, and a large result does not overflow to an infinity), and the negative zero
  is not distinguished from zero. Every division of the program has a divisor that is a
  positive constant, a positive count or a value tested \<open>> 0\<close>, so the sign of a zero
  divisor never matters.

  The properties proved of the program do not lean on the exactness. A sum, a product or
  a quotient that the program computes is stated through the same operation: the mean of
  a group is its sum in list order over its count, not a rational worked out apart. A
  sign is stated only where rounding keeps it, and the finiteness of a quotient only
  where no double can overflow (a division by 100). The gap between two posts is a
  quotient of whole milliseconds by 3 600 000, which rounding cannot move across one of
  the whole-hour bounds of the buckets. In the examples a rational such as \<open>1/10\<close> stands
  for the double nearest to it.
\<close>

datatype jsnum = Fin rat | PInf | NInf | NaN

fun jsadd :: "jsnum \<Rightarrow> jsnum \<Rightarrow> jsnum" where
  "jsadd (Fin a) (Fin b) = Fin (a + b)"
| "jsadd NaN _ = NaN"
| "jsadd _ NaN = NaN"
| "jsadd PInf NInf = NaN"
| "jsadd NInf PInf = NaN"
| "jsadd PInf _ = PInf"
| "jsadd _ PInf = PInf"
| "jsadd NInf _ = NInf"
| "jsadd _ NInf = NInf"

fun jsneg :: "jsnum \<Rightarrow> jsnum" where
  "jsneg (Fin a) = Fin (- a)"
| "jsneg PInf = NInf"
| "jsneg NInf = PInf"
| "jsneg NaN = NaN"

definition jssub :: "jsnum \<Rightarrow> jsnum \<Rightarrow> jsnum" where
  "jssub a b = jsadd a (jsneg b)"

fun jssign :: "jsnum \<Rightarrow> int" where
  "jssign (Fin a) = (if a < 0 then - 1 else if a = 0 then 0 else 1)"
| "jssign PInf = 1"
| "jssign NInf = - 1"
| "jssign NaN = 0"

fun jsmul :: "jsnum \<Rightarrow> jsnum \<Rightarrow> jsnum" where
  "jsmul (Fin a) (Fin b) = Fin (a * b)"
| "jsmul NaN _ = NaN"
| "jsmul _ NaN = NaN"
| "jsmul x y =
     (if jssign x * jssign y = 0 then NaN
      else if 0 < jssign x * jssign y then PInf else NInf)"

fun jsdiv :: "jsnum \<Rightarrow> jsnum \<Rightarrow> jsnum" where
  "jsdiv (Fin a) (Fin b) =
     (if b \<noteq> 0 then Fin (a / b)
      else if a = 0 then NaN else if 0 < a then PInf else NInf)"
| "jsdiv NaN _ = NaN"
| "jsdiv _ NaN = NaN"
| "jsdiv (Fin a) _ = Fin 0"
| "jsdiv PInf (Fin b) = (if 0 \<le> b then PInf else NInf)"
| "jsdiv NInf (Fin b) = (if 0 \<le> b then NInf else PInf)"
| "jsdiv _ _ = NaN"

text \<open>\<open>a < b\<close>; every comparison with \<open>NaN\<close> is false.\<close>

fun jslt :: "jsnum \<Rightarrow> jsnum \<Rightarrow> bool" where
  "jslt (Fin a) (Fin b) = (a < b)"
| "jslt NaN _ = False"
| "jslt _ NaN = False"
| "jslt PInf _ = False"
| "jslt _ NInf = False"
| "jslt NInf _ = True"
| "jslt _ PInf = True"

definition jsgt :: "jsnum \<Rightarrow> jsnum \<Rightarrow> bool" where
  "jsgt a b = jslt b a"

definition jsge :: "jsnum \<Rightarrow> jsnum \<Rightarrow> bool" where
  "jsge a b = (a \<noteq> NaN \<and> b \<noteq> NaN \<and> \<not> jslt a b)"

definition jsle :: "jsnum \<Rightarrow> jsnum \<Rightarrow> bool" where
  "jsle a b = jsge b a"

text \<open>Truthiness of a number: \<open>0\<close> and \<open>NaN\<close> are falsy.\<close>

definition truthyNum :: "jsnum \<Rightarrow> bool" where
  "truthyNum n = (n \<noteq> Fin 0 \<and> n \<noteq> NaN)"

text \<open>\<open>a || b\<close> on numbers.\<close>

definition orNum :: "jsnum \<Rightarrow> jsnum \<Rightarrow> jsnum" where
  "orNum a b = (if truthyNum a then a else b)"

fun isFinite :: "jsnum \<Rightarrow> bool" where
  "isFinite (Fin a) = True"
| "isFinite _ = False"

fun Math_max :: "jsnum \<Rightarrow> jsnum \<Rightarrow> jsnum" where
  "Math_max NaN _ = NaN"
| "Math_max _ NaN = NaN"
| "Math_max a b = (if jslt a b then b else a)"

fun Math_round :: "jsnum \<Rightarrow> jsnum" where
  "Math_round (Fin a) = Fin (of_int \<lfloor>a + 1 / 2\<rfloor>)"
| "Math_round x = x"

fun Math_floor :: "jsnum \<Rightarrow> jsnum" where
  "Math_floor (Fin a) = Fin (of_int \<lfloor>a\<rfloor>)"
| "Math_floor x = x"

text \<open>\<open>a % b\<close>: the remainder has the sign of the dividend.\<close>

definition trunc :: "rat \<Rightarrow> int" where
  "trunc q = (if 0 \<le> q then \<lfloor>q\<rfloor> else \<lceil>q\<rceil>)"

fun jsmod :: "jsnum \<Rightarrow> jsnum \<Rightarrow> jsnum" where
  "jsmod (Fin a) (Fin b) = (if b = 0 then NaN else Fin (a - b * of_int (trunc (a / b))))"
| "jsmod (Fin a) PInf = Fin a"
| "jsmod (Fin a) NInf = Fin a"
| "jsmod _ _ = NaN"

section \<open>Array.prototype.sort\<close>

text \<open>
  \<open>xs.sort(cmp)\<close> is stable (ECMAScript 2019). It is modelled as an insertion sort that
  reads the comparator the way the language does: a positive result puts the first
  argument after the second, and \<open>NaN\<close> counts as \<open>0\<close>. For a comparator that is a
  consistent order on the elements every conforming sort returns this list; for an
  inconsistent one (a \<open>NaN\<close> key among numbers) the language leaves the order to the
  implementation, and the model is one admissible implementation. Engines differ there:
  a merge sort that detects runs orders some lists with a \<open>NaN\<close> key otherwise than this
  insertion sort. The properties of sorted output are therefore proved for comparators
  that are consistent on the elements (records with valid dates, finite weekday
  indices). The examples with a \<open>NaN\<close> key have three elements with that key in the
  middle, a list that this sort and a run-detecting merge sort both return as it is.
\<close>

fun jsInsert :: "('a \<Rightarrow> 'a \<Rightarrow> jsnum) \<Rightarrow> 'a \<Rightarrow> 'a list \<Rightarrow> 'a list" where
  "jsInsert cmp x [] = [x]"
| "jsInsert cmp x (y # ys) =
     (if jsgt (cmp x y) (Fin 0) then y # jsInsert cmp x ys else x # y # ys)"

definition jsSort :: "('a \<Rightarrow> 'a \<Rightarrow> jsnum) \<Rightarrow> 'a list \<Rightarrow> 'a list" where
  "jsSort cmp xs = foldr (jsInsert cmp) xs []"

section \<open>Spreadsheet cells, rows and dates\<close>

text \<open>
  A \<open>Date\<close> holds a time value: an integral number of milliseconds, or \<open>NaN\<close> for an
  invalid date.
\<close>

datatype jsdate = InvalidDate | DateMs int

text \<open>
  A cell of a row read by the spreadsheet library. \<open>row[key]\<close> of an absent column is
  \<open>undefined\<close>, so a row is a total function from column names to cells.
  Strings are held as their UTF-8 bytes.
\<close>

datatype cell = Undefined | Null | CBool bool | CNum jsnum | CStr string | CDate jsdate

type_synonym row = "string \<Rightarrow> cell"

fun truthy :: "cell \<Rightarrow> bool" where
  "truthy Undefined = False"
| "truthy Null = False"
| "truthy (CBool b) = b"
| "truthy (CNum n) = truthyNum n"
| "truthy (CStr s) = (s \<noteq> [])"
| "truthy (CDate d) = True"

text \<open>\<open>a ?? b\<close>.\<close>

fun nullish :: "cell \<Rightarrow> cell \<Rightarrow> cell" where
  "nullish Undefined b = b"
| "nullish Null b = b"
| "nullish a b = a"

text \<open>The object \<open>XLSX.SSF.parse_date_code\<close> returns; the fields the program reads.\<close>

record date_code =
  dc_y :: jsnum
  dc_m :: jsnum
  dc_d :: jsnum
  dc_H :: jsnum
  dc_M :: jsnum
  dc_S :: jsnum

text \<open>
  What the program takes from its host: the conversions between strings and numbers, the
  spreadsheet library's date-serial decoder, and the local clock of \<open>Date\<close>. They are
  parameters of the model; every theorem below holds for every host.
\<close>

record host =
  StringToNumber :: "string \<Rightarrow> jsnum"
  NumberToString :: "jsnum \<Rightarrow> string"
  DateToString :: "jsdate \<Rightarrow> string"
  trim :: "string \<Rightarrow> string"
  parse_date_code :: "jsnum \<Rightarrow> date_code option"
  newDateLocal :: "jsnum \<Rightarrow> jsnum \<Rightarrow> jsnum \<Rightarrow> jsnum \<Rightarrow> jsnum \<Rightarrow> jsnum \<Rightarrow> jsdate"
  newDateString :: "string \<Rightarrow> jsdate"
  setHoursLocal :: "int \<Rightarrow> rat \<Rightarrow> rat \<Rightarrow> rat \<Rightarrow> rat \<Rightarrow> jsdate"
  fullYearLocal :: "int \<Rightarrow> int"
  monthLocal :: "int \<Rightarrow> int"
  dayLocal :: "int \<Rightarrow> int"
  hoursLocal :: "int \<Rightarrow> int"
  isoString :: "int \<Rightarrow> string"

fun getTime :: "jsdate \<Rightarrow> jsnum" where
  "getTime InvalidDate = NaN"
| "getTime (DateMs t) = Fin (of_int t)"

fun getFullYear :: "host \<Rightarrow> jsdate \<Rightarrow> jsnum" where
  "getFullYear h InvalidDate = NaN"
| "getFullYear h (DateMs t) = Fin (of_int (fullYearLocal h t))"

fun getMonth :: "host \<Rightarrow> jsdate \<Rightarrow> jsnum" where
  "getMonth h InvalidDate = NaN"
| "getMonth h (DateMs t) = Fin (of_int (monthLocal h t))"

fun getDay :: "host \<Rightarrow> jsdate \<Rightarrow> jsnum" where
  "getDay h InvalidDate = NaN"
| "getDay h (DateMs t) = Fin (of_int (dayLocal h t))"

fun getHours :: "host \<Rightarrow> jsdate \<Rightarrow> jsnum" where
  "getHours h InvalidDate = NaN"
| "getHours h (DateMs t) = Fin (of_int (hoursLocal h t))"

text \<open>
  \<open>d.setHours(h, m, s, ms)\<close>: an invalid date stays invalid, and an argument that is not
  finite makes the date invalid; otherwise the host's clock gives the new time value
  (invalid again when it leaves the range of \<open>Date\<close>).
\<close>

fun setHours :: "host \<Rightarrow> jsdate \<Rightarrow> jsnum \<Rightarrow> jsnum \<Rightarrow> jsnum \<Rightarrow> jsnum \<Rightarrow> jsdate" where
  "setHours h (DateMs t) (Fin a) (Fin b) (Fin c) (Fin e) = setHoursLocal h t a b c e"
| "setHours h _ _ _ _ _ = InvalidDate"

datatype error = RangeError | TypeError

text \<open>\<open>d.toISOString()\<close> throws a RangeError on an invalid date.\<close>

fun toISOString :: "host \<Rightarrow> jsdate \<Rightarrow> error + string" where
  "toISOString h InvalidDate = Inl RangeError"
| "toISOString h (DateMs t) = Inr (isoString h t)"

text \<open>\<open>Number(c)\<close> and \<open>String(c)\<close> of a cell.\<close>

fun js_Number :: "host \<Rightarrow> cell \<Rightarrow> jsnum" where
  "js_Number h Undefined = NaN"
| "js_Number h Null = Fin 0"
| "js_Number h (CBool b) = (if b then Fin 1 else Fin 0)"
| "js_Number h (CNum n) = n"
| "js_Number h (CStr s) = StringToNumber h s"
| "js_Number h (CDate d) = getTime d"

fun js_String :: "host \<Rightarrow> cell \<Rightarrow> string" where
  "js_String h Undefined = ''undefined''"
| "js_String h Null = ''null''"
| "js_String h (CBool b) = (if b then ''true'' else ''false'')"
| "js_String h (CNum n) = NumberToString h n"
| "js_String h (CStr s) = s"
| "js_String h (CDate d) = DateToString h d"

text \<open>\<open>new Date(v)\<close> of one cell: a string is parsed, any other value is a time value.\<close>

fun timeClip :: "jsnum \<Rightarrow> jsdate" where
  "timeClip (Fin a) = (if \<bar>a\<bar> \<le> 8640000000000000 then DateMs (trunc a) else InvalidDate)"
| "timeClip _ = InvalidDate"

fun newDate :: "host \<Rightarrow> cell \<Rightarrow> jsdate" where
  "newDate h (CStr s) = newDateString h s"
| "newDate h (CDate d) = d"
| "newDate h c = timeClip (js_Number h c)"

section \<open>Constants of the program\<close>

definition col_date :: string where
  \<comment> \<open>the date column, Cyrillic \<open>Data\<close>\<close>
  "col_date =
     [CHR 0xD0, CHR 0x94, CHR 0xD0, CHR 0xB0, CHR 0xD1, CHR 0x82, CHR 0xD0, CHR 0xB0]"

definition col_time :: string where
  \<comment> \<open>the time column, \<open>Vremya posta\<close>\<close>
  "col_time =
     [CHR 0xD0, CHR 0x92, CHR 0xD1, CHR 0x80, CHR 0xD0, CHR 0xB5, CHR 0xD0, CHR 0xBC, CHR 0xD1,
     CHR 0x8F, CHR 0x20, CHR 0xD0, CHR 0xBF, CHR 0xD0, CHR 0xBE, CHR 0xD1, CHR 0x81, CHR 0xD1,
     CHR 0x82, CHR 0xD0, CHR 0xB0]"

definition col_views_day :: string where
  \<comment> \<open>\<open>Kolichestvo prosmotrov v den' posta\<close>\<close>
  "col_views_day =
     [CHR 0xD0, CHR 0x9A, CHR 0xD0, CHR 0xBE, CHR 0xD0, CHR 0xBB, CHR 0xD0, CHR 0xB8, CHR 0xD1,
     CHR 0x87, CHR 0xD0, CHR 0xB5, CHR 0xD1, CHR 0x81, CHR 0xD1, CHR 0x82, CHR 0xD0, CHR 0xB2,
     CHR 0xD0, CHR 0xBE, CHR 0x20, CHR 0xD0, CHR 0xBF, CHR 0xD1, CHR 0x80, CHR 0xD0, CHR 0xBE,
     CHR 0xD1, CHR 0x81, CHR 0xD0, CHR 0xBC, CHR 0xD0, CHR 0xBE, CHR 0xD1, CHR 0x82, CHR 0xD1,
     CHR 0x80, CHR 0xD0, CHR 0xBE, CHR 0xD0, CHR 0xB2, CHR 0x20, CHR 0xD0, CHR 0xB2, CHR 0x20,
     CHR 0xD0, CHR 0xB4, CHR 0xD0, CHR 0xB5, CHR 0xD0, CHR 0xBD, CHR 0xD1, CHR 0x8C, CHR 0x20,
     CHR 0xD0, CHR 0xBF, CHR 0xD0, CHR 0xBE, CHR 0xD1, CHR 0x81, CHR 0xD1, CHR 0x82, CHR 0xD0,
     CHR 0xB0]"

definition col_views_total :: string where
  \<comment> \<open>\<open>Kolichestvo prosmotrov obshchee\<close>\<close>
  "col_views_total =
     [CHR 0xD0, CHR 0x9A, CHR 0xD0, CHR 0xBE, CHR 0xD0, CHR 0xBB, CHR 0xD0, CHR 0xB8, CHR 0xD1,
     CHR 0x87, CHR 0xD0, CHR 0xB5, CHR 0xD1, CHR 0x81, CHR 0xD1, CHR 0x82, CHR 0xD0, CHR 0xB2,
     CHR 0xD0, CHR 0xBE, CHR 0x20, CHR 0xD0, CHR 0xBF, CHR 0xD1, CHR 0x80, CHR 0xD0, CHR 0xBE,
     CHR 0xD1, CHR 0x81, CHR 0xD0, CHR 0xBC, CHR 0xD0, CHR 0xBE, CHR 0xD1, CHR 0x82, CHR 0xD1,
     CHR 0x80, CHR 0xD0, CHR 0xBE, CHR 0xD0, CHR 0xB2, CHR 0x20, CHR 0xD0, CHR 0xBE, CHR 0xD0,
     CHR 0xB1, CHR 0xD1, CHR 0x89, CHR 0xD0, CHR 0xB5, CHR 0xD0, CHR 0xB5]"

definition col_reactions :: string where
  \<comment> \<open>\<open>Kolichestvo reaktsii\<close>\<close>
  "col_reactions =
     [CHR 0xD0, CHR 0x9A, CHR 0xD0, CHR 0xBE, CHR 0xD0, CHR 0xBB, CHR 0xD0, CHR 0xB8, CHR 0xD1,
     CHR 0x87, CHR 0xD0, CHR 0xB5, CHR 0xD1, CHR 0x81, CHR 0xD1, CHR 0x82, CHR 0xD0, CHR 0xB2,
     CHR 0xD0, CHR 0xBE, CHR 0x20, CHR 0xD1, CHR 0x80, CHR 0xD0, CHR 0xB5, CHR 0xD0, CHR 0xB0,
     CHR 0xD0, CHR 0xBA, CHR 0xD1, CHR 0x86, CHR 0xD0, CHR 0xB8, CHR 0xD0, CHR 0xB9]"

definition col_post_type :: string where
  \<comment> \<open>\<open>Tip posta\<close>\<close>
  "col_post_type =
     [CHR 0xD0, CHR 0xA2, CHR 0xD0, CHR 0xB8, CHR 0xD0, CHR 0xBF, CHR 0x20, CHR 0xD0, CHR 0xBF,
     CHR 0xD0, CHR 0xBE, CHR 0xD1, CHR 0x81, CHR 0xD1, CHR 0x82, CHR 0xD0, CHR 0xB0]"

definition col_er :: string where
  "col_er = ''ER (Engagement Rate)''"

definition no_type :: string where
  \<comment> \<open>the default post type, \<open>Bez tipa\<close>\<close>
  "no_type =
     [CHR 0xD0, CHR 0x91, CHR 0xD0, CHR 0xB5, CHR 0xD0, CHR 0xB7, CHR 0x20, CHR 0xD1, CHR 0x82,
     CHR 0xD0, CHR 0xB8, CHR 0xD0, CHR 0xBF, CHR 0xD0, CHR 0xB0]"

definition WEEKDAYS :: "string list" where
  \<comment> \<open>Vs, Pn, Vt, Sr, Cht, Pt, Sb: Sunday first\<close>
  "WEEKDAYS =
    [[CHR 0xD0, CHR 0x92, CHR 0xD1, CHR 0x81],
     [CHR 0xD0, CHR 0x9F, CHR 0xD0, CHR 0xBD],
     [CHR 0xD0, CHR 0x92, CHR 0xD1, CHR 0x82],
     [CHR 0xD0, CHR 0xA1, CHR 0xD1, CHR 0x80],
     [CHR 0xD0, CHR 0xA7, CHR 0xD1, CHR 0x82],
     [CHR 0xD0, CHR 0x9F, CHR 0xD1, CHR 0x82],
     [CHR 0xD0, CHR 0xA1, CHR 0xD0, CHR 0xB1]]"

section \<open>The Row Normalizer\<close>

text \<open>
  The record of a post. The field \<open>id\<close> of the source is \<open>post_id\<close>. The numbers are
  those of the language: an invalid date gives the weekday index and the hour \<open>NaN\<close> and
  the weekday label \<open>undefined\<close> (\<open>None\<close>).
\<close>

record PostRecord =
  post_id :: nat
  date :: string
  dateObj :: jsdate
  monthKey :: string
  weekdayIndex :: jsnum
  weekdayLabel :: "string option"
  hour :: jsnum
  views :: jsnum
  reactions :: jsnum
  er :: jsnum
  postType :: string

text \<open>
  \<open>parseDate\<close>: a falsy value is rejected first; a number is decoded as a spreadsheet
  date serial, a \<open>Date\<close> is returned as it is, anything else goes through \<open>new Date\<close>
  and is rejected when the result is invalid. \<open>None\<close> is the \<open>null\<close> of the source.
\<close>

definition parseDate :: "host \<Rightarrow> cell \<Rightarrow> jsdate option" where
  "parseDate h v =
     (if \<not> truthy v then None
      else case v of
        CNum n \<Rightarrow>
          (case parse_date_code h n of
             None \<Rightarrow> None
           | Some parsed \<Rightarrow>
               Some (newDateLocal h (dc_y parsed)
                 (jssub (orNum (dc_m parsed) (Fin 1)) (Fin 1))
                 (orNum (dc_d parsed) (Fin 1))
                 (orNum (dc_H parsed) (Fin 0))
                 (orNum (dc_M parsed) (Fin 0))
                 (orNum (dc_S parsed) (Fin 0))))
      | CDate d \<Rightarrow> Some d
      | _ \<Rightarrow> (let d = newDate h v in if getTime d = NaN then None else Some d))"

text \<open>\<open>s.split(":")\<close>: never empty; the empty string gives one empty part.\<close>

fun split_colon :: "string \<Rightarrow> string list" where
  "split_colon [] = [[]]"
| "split_colon (c # cs) =
     (if c = CHR '':'' then [] # split_colon cs
      else (case split_colon cs of [] \<Rightarrow> [[c]] | w # ws \<Rightarrow> (c # w) # ws))"

text \<open>
  One element of the destructuring \<open>[hStr, mStr = "0", sStr = "0"]\<close>, already converted:
  \<open>Number(part) || 0\<close>, where a missing part is \<open>undefined\<close> unless it has a default.
\<close>

definition timePart :: "host \<Rightarrow> string list \<Rightarrow> nat \<Rightarrow> string option \<Rightarrow> jsnum" where
  "timePart h parts i dflt =
     orNum (if i < length parts then StringToNumber h (parts ! i)
            else (case dflt of None \<Rightarrow> NaN | Some s \<Rightarrow> StringToNumber h s))
       (Fin 0)"

text \<open>
  The merge of the time cell into the date (\<open>src/unnamed/part_000\<close>). Nothing in the
  guarded block throws, so its \<open>catch\<close> is never entered. The older copy of the component,
  \<open>src/src/App.tsx\<close>, has the string branch only, without the defaults; the rest of the
  normalizer is the same in both copies.
\<close>

definition mergeTime :: "host \<Rightarrow> cell \<Rightarrow> jsdate \<Rightarrow> jsdate" where
  "mergeTime h rawTime d =
     (if \<not> truthy rawTime then d
      else case rawTime of
        CNum n \<Rightarrow>
          (let totalMinutes = Math_round (jsmul (jsmul n (Fin 24)) (Fin 60));
               hours = Math_floor (jsdiv totalMinutes (Fin 60));
               minutes = jsmod totalMinutes (Fin 60)
           in setHours h d hours minutes (Fin 0) (Fin 0))
      | _ \<Rightarrow>
          (let timeStr = trim h (js_String h rawTime);
               parts = split_colon timeStr;
               hh = timePart h parts 0 None;
               mm = timePart h parts 1 (Some ''0'');
               ss = timePart h parts 2 (Some ''0'')
           in setHours h d hh mm ss (Fin 0)))"

text \<open>The engagement rate: the explicit cell is a percentage, else it is derived.\<close>

definition resolveEr :: "host \<Rightarrow> cell \<Rightarrow> jsnum \<Rightarrow> jsnum \<Rightarrow> jsnum" where
  "resolveEr h erRaw v r =
     (if erRaw \<noteq> Undefined \<and> erRaw \<noteq> Null \<and> erRaw \<noteq> CStr ''''
      then (let erNum = js_Number h erRaw
            in if isFinite erNum then jsdiv erNum (Fin 100) else Fin 0)
      else (if jsgt v (Fin 0) then jsdiv r v else Fin 0))"

text \<open>\<open>WEEKDAYS[i]\<close>: \<open>undefined\<close> unless \<open>i\<close> is an index of the array.\<close>

fun weekdayAt :: "jsnum \<Rightarrow> string option" where
  "weekdayAt (Fin a) =
     (if 0 \<le> a \<and> a < 7 \<and> of_int \<lfloor>a\<rfloor> = a then Some (WEEKDAYS ! nat \<lfloor>a\<rfloor>) else None)"
| "weekdayAt _ = None"

definition padStart2 :: "string \<Rightarrow> string" where
  "padStart2 s = replicate (2 - length s) CHR ''0'' @ s"

text \<open>
  \<open>mapRowToPost\<close>: \<open>Inr None\<close> is the skipped row (\<open>null\<close>), \<open>Inl\<close> the exception that
  \<open>toISOString\<close> throws when the date cell is not a string and the merged date is invalid.
  The locals \<open>dateObj\<close>, \<open>views\<close>, \<open>reactions\<close>, \<open>er\<close>, \<open>monthKey\<close> and \<open>weekdayIndex\<close> of
  the source are \<open>d\<close>, \<open>v\<close>, \<open>r\<close>, \<open>e\<close>, \<open>mk\<close> and \<open>wi\<close> here: the fields of the record
  carry the names.
\<close>

definition mapRowToPost :: "host \<Rightarrow> row \<Rightarrow> nat \<Rightarrow> error + PostRecord option" where
  "mapRowToPost h row index =
     (let rawDate = row col_date;
          rawTime = row col_time;
          viewsRaw = nullish (row col_views_day) (row col_views_total);
          reactionsRaw = row col_reactions;
          postTypeRaw = nullish (row col_post_type) (CStr no_type);
          erRaw = row col_er
      in case parseDate h rawDate of
           None \<Rightarrow> Inr None
         | Some d0 \<Rightarrow>
             (let d = mergeTime h rawTime d0;
                  v = orNum (js_Number h viewsRaw) (Fin 0);
                  r = orNum (js_Number h reactionsRaw) (Fin 0);
                  e = resolveEr h erRaw v r;
                  year = getFullYear h d;
                  month = jsadd (getMonth h d) (Fin 1);
                  mk = NumberToString h year @ ''-'' @ padStart2 (NumberToString h month);
                  wi = getDay h d
              in case (case rawDate of CStr s \<Rightarrow> Inr s | _ \<Rightarrow> toISOString h d) of
                   Inl ex \<Rightarrow> Inl ex
                 | Inr ds \<Rightarrow>
                     Inr (Some \<lparr>post_id = index, date = ds, dateObj = d, monthKey = mk,
                       weekdayIndex = wi, weekdayLabel = weekdayAt wi, hour = getHours h d,
                       views = v, reactions = r, er = e,
                       postType = js_String h (nullish postTypeRaw (CStr no_type))\<rparr>)))"

section \<open>Record Store ingestion\<close>

text \<open>
  The state of the component: the store and the three selectors. \<open>handleFileUpload\<close> is
  modelled from the rows the spreadsheet library returns.
\<close>

record app_state =
  posts :: "PostRecord list"
  selectedMonth :: string
  selectedPostType :: string
  selectedWeekday :: string

text \<open>The \<open>forEach\<close> that pushes the mapped rows; an exception leaves the loop.\<close>

fun parseRows :: "host \<Rightarrow> row list \<Rightarrow> nat \<Rightarrow> PostRecord list \<Rightarrow> error + PostRecord list" where
  "parseRows h [] idx parsed = Inr parsed"
| "parseRows h (row # rows) idx parsed =
     (case mapRowToPost h row idx of
        Inl ex \<Rightarrow> Inl ex
      | Inr None \<Rightarrow> parseRows h rows (Suc idx) parsed
      | Inr (Some mapped) \<Rightarrow> parseRows h rows (Suc idx) (parsed @ [mapped]))"

definition byTime :: "PostRecord \<Rightarrow> PostRecord \<Rightarrow> jsnum" where
  "byTime a b = jssub (getTime (dateObj a)) (getTime (dateObj b))"

text \<open>
  An exception leaves the handler before \<open>setPosts\<close>: the state is not touched.
\<close>

definition handleFileUpload :: "host \<Rightarrow> row list \<Rightarrow> app_state \<Rightarrow> error + app_state" where
  "handleFileUpload h json st =
     (case parseRows h json 0 [] of
        Inl ex \<Rightarrow> Inl ex
      | Inr parsed \<Rightarrow>
          Inr (st\<lparr>posts := jsSort byTime parsed, selectedMonth := ''all'',
                  selectedPostType := ''all'', selectedWeekday := ''all''\<rparr>))"

section \<open>The Filter Stage\<close>

definition keepPost :: "string \<Rightarrow> string \<Rightarrow> string \<Rightarrow> PostRecord \<Rightarrow> bool" where
  "keepPost sm st sw p =
     (if sm \<noteq> ''all'' \<and> monthKey p \<noteq> sm then False
      else if st \<noteq> ''all'' \<and> postType p \<noteq> st then False
      else if sw \<noteq> ''all'' \<and> weekdayLabel p \<noteq> Some sw then False
      else True)"

definition filteredPosts :: "app_state \<Rightarrow> PostRecord list" where
  "filteredPosts st =
     filter (keepPost (selectedMonth st) (selectedPostType st) (selectedWeekday st)) (posts st)"

section \<open>The KPI summary\<close>

record Kpi =
  totalPosts :: nat
  avgViews :: jsnum
  avgReactions :: jsnum
  avgEr :: jsnum

definition num :: "nat \<Rightarrow> jsnum" where
  "num n = Fin (of_nat n)"

definition kpi :: "PostRecord list \<Rightarrow> Kpi" where
  "kpi fp =
     (if length fp = 0
      then \<lparr>totalPosts = 0, avgViews = Fin 0, avgReactions = Fin 0, avgEr = Fin 0\<rparr>
      else (let n = length fp;
                sumViews = foldl (\<lambda>acc p. jsadd acc (views p)) (Fin 0) fp;
                sumReactions = foldl (\<lambda>acc p. jsadd acc (reactions p)) (Fin 0) fp
            in \<lparr>totalPosts = n,
                avgViews = jsdiv sumViews (num n),
                avgReactions = jsdiv sumReactions (num n),
                avgEr = jsdiv (foldl (\<lambda>acc p. jsadd acc (er p)) (Fin 0) fp) (num n)\<rparr>))"

section \<open>Maps and loops of the aggregators\<close>

text \<open>
  A \<open>Map\<close> keeps its keys in insertion order: an association list in which \<open>set\<close>
  replaces the value of a present key in place and appends an absent one. \<open>get\<close> is
  \<open>map_of\<close>. Where the source writes \<open>map.get(k)!\<close> and reads a field of the result, an
  absent key is the TypeError of the model.
\<close>

fun mapSet :: "'k \<Rightarrow> 'v \<Rightarrow> ('k \<times> 'v) list \<Rightarrow> ('k \<times> 'v) list" where
  "mapSet k v [] = [(k, v)]"
| "mapSet k v (e # es) = (if fst e = k then (k, v) # es else e # mapSet k v es)"

fun foldE :: "('s \<Rightarrow> 'a \<Rightarrow> error + 's) \<Rightarrow> 's \<Rightarrow> 'a list \<Rightarrow> error + 's" where
  "foldE f s [] = Inr s"
| "foldE f s (x # xs) = (case f s x of Inl ex \<Rightarrow> Inl ex | Inr s' \<Rightarrow> foldE f s' xs)"

fun mapE :: "('a \<Rightarrow> error + 'b) \<Rightarrow> 'a list \<Rightarrow> error + 'b list" where
  "mapE f [] = Inr []"
| "mapE f (x # xs) =
     (case f x of
        Inl ex \<Rightarrow> Inl ex
      | Inr y \<Rightarrow> (case mapE f xs of Inl ex \<Rightarrow> Inl ex | Inr ys \<Rightarrow> Inr (y # ys)))"

section \<open>The grouped-by-weekday aggregators\<close>

record WeekdayViewsAgg =
  wv_weekday :: "string option"
  wv_viewsSum :: jsnum
  wv_count :: nat

record WeekdayViews =
  vw_weekday :: "string option"
  vw_avgViews :: jsnum

definition viewsByWeekdayStep ::
  "(jsnum \<times> WeekdayViewsAgg) list \<Rightarrow> PostRecord \<Rightarrow> error + (jsnum \<times> WeekdayViewsAgg) list" where
  "viewsByWeekdayStep m p =
     (let m1 = (if map_of m (weekdayIndex p) = None
                then mapSet (weekdayIndex p)
                       \<lparr>wv_weekday = weekdayLabel p, wv_viewsSum = Fin 0, wv_count = 0\<rparr> m
                else m)
      in case map_of m1 (weekdayIndex p) of
           None \<Rightarrow> Inl TypeError
         | Some entry \<Rightarrow>
             Inr (mapSet (weekdayIndex p)
                    (entry\<lparr>wv_viewsSum := jsadd (wv_viewsSum entry) (views p),
                           wv_count := wv_count entry + 1\<rparr>) m1))"

definition byKey :: "jsnum \<times> 'v \<Rightarrow> jsnum \<times> 'v \<Rightarrow> jsnum" where
  "byKey x y = jssub (fst x) (fst y)"

text \<open>The sorted entries of the map, before they are projected to the output rows.\<close>

definition viewsByWeekdayEntries :: "PostRecord list \<Rightarrow> error + (jsnum \<times> WeekdayViewsAgg) list" where
  "viewsByWeekdayEntries fp =
     (case foldE viewsByWeekdayStep [] fp of
        Inl ex \<Rightarrow> Inl ex
      | Inr m \<Rightarrow> Inr (jsSort byKey m))"

definition viewsByWeekdayRow :: "jsnum \<times> WeekdayViewsAgg \<Rightarrow> WeekdayViews" where
  "viewsByWeekdayRow e =
     \<lparr>vw_weekday = wv_weekday (snd e),
      vw_avgViews = (if 0 < wv_count (snd e)
                     then jsdiv (wv_viewsSum (snd e)) (num (wv_count (snd e))) else Fin 0)\<rparr>"

definition viewsByWeekday :: "PostRecord list \<Rightarrow> error + WeekdayViews list" where
  "viewsByWeekday fp =
     (case viewsByWeekdayEntries fp of
        Inl ex \<Rightarrow> Inl ex
      | Inr es \<Rightarrow> Inr (map viewsByWeekdayRow es))"

record WeekdayErAgg =
  we_weekday :: "string option"
  we_erSum :: jsnum
  we_count :: nat

record WeekdayEr =
  ew_weekday :: "string option"
  ew_avgErPercent :: jsnum

definition erByWeekdayStep ::
  "(jsnum \<times> WeekdayErAgg) list \<Rightarrow> PostRecord \<Rightarrow> error + (jsnum \<times> WeekdayErAgg) list" where
  "erByWeekdayStep m p =
     (let m1 = (if map_of m (weekdayIndex p) = None
                then mapSet (weekdayIndex p)
                       \<lparr>we_weekday = weekdayLabel p, we_erSum = Fin 0, we_count = 0\<rparr> m
                else m)
      in case map_of m1 (weekdayIndex p) of
           None \<Rightarrow> Inl TypeError
         | Some entry \<Rightarrow>
             Inr (mapSet (weekdayIndex p)
                    (entry\<lparr>we_erSum := jsadd (we_erSum entry) (er p),
                           we_count := we_count entry + 1\<rparr>) m1))"

definition erByWeekdayEntries :: "PostRecord list \<Rightarrow> error + (jsnum \<times> WeekdayErAgg) list" where
  "erByWeekdayEntries fp =
     (case foldE erByWeekdayStep [] fp of
        Inl ex \<Rightarrow> Inl ex
      | Inr m \<Rightarrow> Inr (jsSort byKey m))"

definition erByWeekdayRow :: "jsnum \<times> WeekdayErAgg \<Rightarrow> WeekdayEr" where
  "erByWeekdayRow e =
     \<lparr>ew_weekday = we_weekday (snd e),
      ew_avgErPercent = (if 0 < we_count (snd e)
                         then jsmul (jsdiv (we_erSum (snd e)) (num (we_count (snd e)))) (Fin 100)
                         else Fin 0)\<rparr>"

definition erByWeekday :: "PostRecord list \<Rightarrow> error + WeekdayEr list" where
  "erByWeekday fp =
     (case erByWeekdayEntries fp of
        Inl ex \<Rightarrow> Inl ex
      | Inr es \<Rightarrow> Inr (map erByWeekdayRow es))"

section \<open>The gap-bucket and time-of-day aggregators\<close>

definition gap_label_0 :: string where
  \<comment> \<open>< 6 chasov\<close>
  "gap_label_0 =
     [CHR 0x3C, CHR 0x20, CHR 0x36, CHR 0x20, CHR 0xD1, CHR 0x87, CHR 0xD0, CHR 0xB0, CHR 0xD1,
     CHR 0x81, CHR 0xD0, CHR 0xBE, CHR 0xD0, CHR 0xB2]"

definition gap_label_1 :: string where
  \<comment> \<open>6-12 chasov\<close>
  "gap_label_1 =
     [CHR 0x36, CHR 0xE2, CHR 0x80, CHR 0x93, CHR 0x31, CHR 0x32, CHR 0x20, CHR 0xD1, CHR 0x87,
     CHR 0xD0, CHR 0xB0, CHR 0xD1, CHR 0x81, CHR 0xD0, CHR 0xBE, CHR 0xD0, CHR 0xB2]"

definition gap_label_2 :: string where
  \<comment> \<open>12-24 chasa\<close>
  "gap_label_2 =
     [CHR 0x31, CHR 0x32, CHR 0xE2, CHR 0x80, CHR 0x93, CHR 0x32, CHR 0x34, CHR 0x20, CHR 0xD1,
     CHR 0x87, CHR 0xD0, CHR 0xB0, CHR 0xD1, CHR 0x81, CHR 0xD0, CHR 0xB0]"

definition gap_label_3 :: string where
  \<comment> \<open>24-48 chasov\<close>
  "gap_label_3 =
     [CHR 0x32, CHR 0x34, CHR 0xE2, CHR 0x80, CHR 0x93, CHR 0x34, CHR 0x38, CHR 0x20, CHR 0xD1,
     CHR 0x87, CHR 0xD0, CHR 0xB0, CHR 0xD1, CHR 0x81, CHR 0xD0, CHR 0xBE, CHR 0xD0, CHR 0xB2]"

definition gap_label_4 :: string where
  \<comment> \<open>> 48 chasov\<close>
  "gap_label_4 =
     [CHR 0x3E, CHR 0x20, CHR 0x34, CHR 0x38, CHR 0x20, CHR 0xD1, CHR 0x87, CHR 0xD0, CHR 0xB0,
     CHR 0xD1, CHR 0x81, CHR 0xD0, CHR 0xBE, CHR 0xD0, CHR 0xB2]"

definition seg_label_0 :: string where
  \<comment> \<open>00-06 (noch')\<close>
  "seg_label_0 =
     [CHR 0x30, CHR 0x30, CHR 0xE2, CHR 0x80, CHR 0x93, CHR 0x30, CHR 0x36, CHR 0x20, CHR 0x28,
     CHR 0xD0, CHR 0xBD, CHR 0xD0, CHR 0xBE, CHR 0xD1, CHR 0x87, CHR 0xD1, CHR 0x8C, CHR 0x29]"

definition seg_label_1 :: string where
  \<comment> \<open>06-10 (utro)\<close>
  "seg_label_1 =
     [CHR 0x30, CHR 0x36, CHR 0xE2, CHR 0x80, CHR 0x93, CHR 0x31, CHR 0x30, CHR 0x20, CHR 0x28,
     CHR 0xD1, CHR 0x83, CHR 0xD1, CHR 0x82, CHR 0xD1, CHR 0x80, CHR 0xD0, CHR 0xBE, CHR 0x29]"

definition seg_label_2 :: string where
  \<comment> \<open>10-17 (den')\<close>
  "seg_label_2 =
     [CHR 0x31, CHR 0x30, CHR 0xE2, CHR 0x80, CHR 0x93, CHR 0x31, CHR 0x37, CHR 0x20, CHR 0x28,
     CHR 0xD0, CHR 0xB4, CHR 0xD0, CHR 0xB5, CHR 0xD0, CHR 0xBD, CHR 0xD1, CHR 0x8C, CHR 0x29]"

definition seg_label_3 :: string where
  \<comment> \<open>17-22 (vecher)\<close>
  "seg_label_3 =
     [CHR 0x31, CHR 0x37, CHR 0xE2, CHR 0x80, CHR 0x93, CHR 0x32, CHR 0x32, CHR 0x20, CHR 0x28,
     CHR 0xD0, CHR 0xB2, CHR 0xD0, CHR 0xB5, CHR 0xD1, CHR 0x87, CHR 0xD0, CHR 0xB5, CHR 0xD1,
     CHR 0x80, CHR 0x29]"

definition seg_label_4 :: string where
  \<comment> \<open>22-24 (pozdnii vecher)\<close>
  "seg_label_4 =
     [CHR 0x32, CHR 0x32, CHR 0xE2, CHR 0x80, CHR 0x93, CHR 0x32, CHR 0x34, CHR 0x20, CHR 0x28,
     CHR 0xD0, CHR 0xBF, CHR 0xD0, CHR 0xBE, CHR 0xD0, CHR 0xB7, CHR 0xD0, CHR 0xB4, CHR 0xD0,
     CHR 0xBD, CHR 0xD0, CHR 0xB8, CHR 0xD0, CHR 0xB9, CHR 0x20, CHR 0xD0, CHR 0xB2, CHR 0xD0,
     CHR 0xB5, CHR 0xD1, CHR 0x87, CHR 0xD0, CHR 0xB5, CHR 0xD1, CHR 0x80, CHR 0x29]"

record Bucket =
  b_id :: string
  b_label :: string
  b_min :: jsnum
  b_max :: jsnum

text \<open>
  \<open>GAP_BUCKETS\<close> (fields \<open>id, label, min, max\<close>, in hours) and \<open>TIME_SEGMENTS\<close> (fields
  \<open>id, label, minHour, maxHour\<close>) have the same shape and share the record.
\<close>

definition GAP_BUCKETS :: "Bucket list" where
  "GAP_BUCKETS =
     [\<lparr>b_id = ''<6'', b_label = gap_label_0, b_min = Fin 0, b_max = Fin 6\<rparr>,
      \<lparr>b_id = ''6-12'', b_label = gap_label_1, b_min = Fin 6, b_max = Fin 12\<rparr>,
      \<lparr>b_id = ''12-24'', b_label = gap_label_2, b_min = Fin 12, b_max = Fin 24\<rparr>,
      \<lparr>b_id = ''24-48'', b_label = gap_label_3, b_min = Fin 24, b_max = Fin 48\<rparr>,
      \<lparr>b_id = ''>48'', b_label = gap_label_4, b_min = Fin 48, b_max = PInf\<rparr>]"

definition TIME_SEGMENTS :: "Bucket list" where
  "TIME_SEGMENTS =
     [\<lparr>b_id = ''night'', b_label = seg_label_0, b_min = Fin 0, b_max = Fin 6\<rparr>,
      \<lparr>b_id = ''morning'', b_label = seg_label_1, b_min = Fin 6, b_max = Fin 10\<rparr>,
      \<lparr>b_id = ''day'', b_label = seg_label_2, b_min = Fin 10, b_max = Fin 17\<rparr>,
      \<lparr>b_id = ''evening'', b_label = seg_label_3, b_min = Fin 17, b_max = Fin 22\<rparr>,
      \<lparr>b_id = ''late'', b_label = seg_label_4, b_min = Fin 22, b_max = Fin 24\<rparr>]"

text \<open>\<open>BucketAgg\<close> and \<open>SegmentAgg\<close> of the source: the same four fields.\<close>

record BucketAgg =
  ba_label :: string
  ba_viewsSum :: jsnum
  ba_erSum :: jsnum
  ba_count :: nat

record BucketStat =
  bucketId :: string
  bucketLabel :: string
  bs_avgViews :: jsnum
  bs_avgErPercent :: jsnum

text \<open>The map with one zeroed entry per bucket, in the order of the table.\<close>

definition initAggs :: "Bucket list \<Rightarrow> (string \<times> BucketAgg) list" where
  "initAggs bs =
     foldl (\<lambda>m b. mapSet (b_id b)
              \<lparr>ba_label = b_label b, ba_viewsSum = Fin 0, ba_erSum = Fin 0, ba_count = 0\<rparr> m)
       [] bs"

definition inBucket :: "jsnum \<Rightarrow> Bucket \<Rightarrow> bool" where
  "inBucket x b = (jsge x (b_min b) \<and> jslt x (b_max b))"

text \<open>\<open>agg.viewsSum += views; agg.erSum += er; agg.count += 1\<close> on \<open>map.get(id)!\<close>.\<close>

definition addToBucket ::
  "string \<Rightarrow> PostRecord \<Rightarrow> (string \<times> BucketAgg) list \<Rightarrow> error + (string \<times> BucketAgg) list" where
  "addToBucket k p m =
     (case map_of m k of
        None \<Rightarrow> Inl TypeError
      | Some agg \<Rightarrow>
          Inr (mapSet k (agg\<lparr>ba_viewsSum := jsadd (ba_viewsSum agg) (views p),
                             ba_erSum := jsadd (ba_erSum agg) (er p),
                             ba_count := ba_count agg + 1\<rparr>) m))"

text \<open>The row of one bucket in the output of both aggregators.\<close>

definition bucketStat :: "(string \<times> BucketAgg) list \<Rightarrow> Bucket \<Rightarrow> error + BucketStat" where
  "bucketStat m b =
     (case map_of m (b_id b) of
        None \<Rightarrow> Inl TypeError
      | Some agg \<Rightarrow>
          Inr \<lparr>bucketId = b_id b, bucketLabel = b_label b,
               bs_avgViews = (if ba_count agg \<noteq> 0
                              then jsdiv (ba_viewsSum agg) (num (ba_count agg)) else Fin 0),
               bs_avgErPercent = (if ba_count agg \<noteq> 0
                                  then jsmul (jsdiv (ba_erSum agg) (num (ba_count agg))) (Fin 100)
                                  else Fin 0)\<rparr>)"

definition gapHours :: "PostRecord \<Rightarrow> PostRecord \<Rightarrow> jsnum" where
  "gapHours prev cur =
     jsdiv (jssub (getTime (dateObj cur)) (getTime (dateObj prev))) (Fin (1000 * 60 * 60))"

definition gapBucket :: "jsnum \<Rightarrow> Bucket" where
  "gapBucket g =
     (case find (inBucket g) GAP_BUCKETS of
        Some b \<Rightarrow> b
      | None \<Rightarrow> GAP_BUCKETS ! (length GAP_BUCKETS - 1))"

text \<open>
  The loop \<open>for (i = 1; i < sorted.length; i++)\<close> over \<open>sorted[i - 1]\<close> and \<open>sorted[i]\<close>.
\<close>

fun gapLoop ::
  "PostRecord list \<Rightarrow> (string \<times> BucketAgg) list \<Rightarrow> error + (string \<times> BucketAgg) list" where
  "gapLoop (prev # cur # rest) m =
     (case addToBucket (b_id (gapBucket (gapHours prev cur))) cur m of
        Inl ex \<Rightarrow> Inl ex
      | Inr m' \<Rightarrow> gapLoop (cur # rest) m')"
| "gapLoop _ m = Inr m"

text \<open>The map after the loop; the source computes it only for two records or more.\<close>

definition gapAggs :: "PostRecord list \<Rightarrow> error + (string \<times> BucketAgg) list" where
  "gapAggs fp = gapLoop (jsSort byTime fp) (initAggs GAP_BUCKETS)"


definition segmentOf :: "jsnum \<Rightarrow> Bucket" where
  "segmentOf hr =
     (case find (inBucket hr) TIME_SEGMENTS of
        Some s \<Rightarrow> s
      | None \<Rightarrow> TIME_SEGMENTS ! 0)"

definition timeOfDayStep ::
  "(string \<times> BucketAgg) list \<Rightarrow> PostRecord \<Rightarrow> error + (string \<times> BucketAgg) list" where
  "timeOfDayStep m p = addToBucket (b_id (segmentOf (hour p))) p m"

definition timeOfDayAggs :: "PostRecord list \<Rightarrow> error + (string \<times> BucketAgg) list" where
  "timeOfDayAggs fp = foldE timeOfDayStep (initAggs TIME_SEGMENTS) fp"

definition timeOfDayStats :: "PostRecord list \<Rightarrow> error + BucketStat list" where
  "timeOfDayStats fp =
     (if length fp = 0 then Inr []
      else case timeOfDayAggs fp of
             Inl ex \<Rightarrow> Inl ex
           | Inr m \<Rightarrow> mapE (bucketStat m) TIME_SEGMENTS)"

section \<open>The weekday by hour heatmap\<close>

record HeatAgg =
  ha_weekdayIndex :: jsnum
  ha_weekday :: "string option"
  ha_hour :: jsnum
  ha_viewsSum :: jsnum
  ha_count :: nat

record HeatCell =
  hc_weekdayIndex :: jsnum
  hc_weekday :: "string option"
  hc_hour :: jsnum
  hc_avgViews :: jsnum

record Heatmap =
  cells :: "HeatCell list"
  maxViews :: jsnum

text \<open>
  The source keys the map by the string \<open>weekdayIndex-hour\<close>. The decimal form of a
  number has a minus sign only in front or after an exponent mark, so two pairs of
  numbers give the same string only when they are the same pair: the model keys the map
  by the pair.
\<close>

definition heatStep ::
  "((jsnum \<times> jsnum) \<times> HeatAgg) list \<Rightarrow> PostRecord \<Rightarrow> error + ((jsnum \<times> jsnum) \<times> HeatAgg) list" where
  "heatStep m p =
     (let key = (weekdayIndex p, hour p);
          m1 = (if map_of m key = None
                then mapSet key
                       \<lparr>ha_weekdayIndex = weekdayIndex p, ha_weekday = weekdayLabel p,
                        ha_hour = hour p, ha_viewsSum = Fin 0, ha_count = 0\<rparr> m
                else m)
      in case map_of m1 key of
           None \<Rightarrow> Inl TypeError
         | Some cell \<Rightarrow>
             Inr (mapSet key
                    (cell\<lparr>ha_viewsSum := jsadd (ha_viewsSum cell) (views p),
                          ha_count := ha_count cell + 1\<rparr>) m1))"

definition heatCell :: "HeatAgg \<Rightarrow> HeatCell" where
  "heatCell v =
     \<lparr>hc_weekdayIndex = ha_weekdayIndex v, hc_weekday = ha_weekday v, hc_hour = ha_hour v,
      hc_avgViews = (if 0 < ha_count v then jsdiv (ha_viewsSum v) (num (ha_count v))
                     else Fin 0)\<rparr>"

definition heatmapData :: "PostRecord list \<Rightarrow> error + Heatmap" where
  "heatmapData fp =
     (case foldE heatStep [] fp of
        Inl ex \<Rightarrow> Inl ex
      | Inr cellMap \<Rightarrow>
          (let cs = map (\<lambda>e. heatCell (snd e)) cellMap
           in Inr \<lparr>cells = cs,
                   maxViews = orNum (foldl (\<lambda>m c. Math_max m (hc_avgViews c)) (Fin 0) cs)
                                (Fin 1)\<rparr>))"

section \<open>A host for the examples: the UTC clock\<close>

text \<open>
  The examples below run the program on one concrete host, whose clock is UTC. It reads
  and prints what the examples need and no more: \<open>StringToNumber\<close> reads the empty string,
  unsigned decimal integers and the two infinities (any other string is \<open>NaN\<close> here,
  though the language reads more numerals); \<open>NumberToString\<close> prints integers and the
  special values; \<open>new Date(s)\<close> reads the date-only form \<open>YYYY-MM-DD\<close>, which the language
  takes as midnight UTC; the date-serial decoder follows the spreadsheet library on whole
  seconds. No theorem about the program depends on this host.
\<close>

definition digitOf :: "char \<Rightarrow> nat option" where
  "digitOf c =
     (let n = (of_char c :: nat) in if 48 \<le> n \<and> n \<le> 57 then Some (n - 48) else None)"

fun decimal :: "nat \<Rightarrow> string \<Rightarrow> nat option" where
  "decimal acc [] = Some acc"
| "decimal acc (c # cs) =
     (case digitOf c of None \<Rightarrow> None | Some d \<Rightarrow> decimal (10 * acc + d) cs)"

definition utcStringToNumber :: "string \<Rightarrow> jsnum" where
  "utcStringToNumber s =
     (if s = [] then Fin 0
      else if s = ''Infinity'' then PInf
      else if s = ''-Infinity'' then NInf
      else case decimal 0 s of
             Some n \<Rightarrow> Fin (of_nat n)
           | None \<Rightarrow> NaN)"

definition digitChar :: "nat \<Rightarrow> char" where
  "digitChar d = ''0123456789'' ! d"

fun digitsOf :: "nat \<Rightarrow> nat \<Rightarrow> string" where
  "digitsOf 0 n = []"
| "digitsOf (Suc k) n = digitsOf k (n div 10) @ [digitChar (n mod 10)]"

text \<open>The decimal form of a natural number below \<open>10 ^ 20\<close>, without leading zeros.\<close>

definition natString :: "nat \<Rightarrow> string" where
  "natString n = (case dropWhile (\<lambda>c. c = CHR ''0'') (digitsOf 20 n) of [] \<Rightarrow> ''0'' | s \<Rightarrow> s)"

definition utcNumberToString :: "jsnum \<Rightarrow> string" where
  "utcNumberToString x =
     (case x of
        NaN \<Rightarrow> ''NaN''
      | PInf \<Rightarrow> ''Infinity''
      | NInf \<Rightarrow> ''-Infinity''
      | Fin a \<Rightarrow> (if 0 \<le> a then natString (nat \<lfloor>a\<rfloor>) else CHR ''-'' # natString (nat \<lfloor>- a\<rfloor>)))"

definition isSpace :: "char \<Rightarrow> bool" where
  "isSpace c = (c = CHR '' '' \<or> c = CHR 0x09 \<or> c = CHR 0x0A \<or> c = CHR 0x0D)"

definition utcTrim :: "string \<Rightarrow> string" where
  "utcTrim s = rev (dropWhile isSpace (rev (dropWhile isSpace s)))"

text \<open>Days since 1970-01-01 of a date of the Gregorian calendar, and back.\<close>

definition daysFromCivil :: "int \<Rightarrow> int \<Rightarrow> int \<Rightarrow> int" where
  "daysFromCivil y m d =
     (let y' = (if m \<le> 2 then y - 1 else y);
          era = y' div 400;
          yoe = y' - era * 400;
          doy = (153 * (if 2 < m then m - 3 else m + 9) + 2) div 5 + d - 1;
          doe = yoe * 365 + yoe div 4 - yoe div 100 + doy
      in era * 146097 + doe - 719468)"

definition civilFromDays :: "int \<Rightarrow> int \<times> int \<times> int" where
  "civilFromDays days =
     (let z = days + 719468;
          era = z div 146097;
          doe = z - era * 146097;
          yoe = (doe - doe div 1460 + doe div 36524 - doe div 146096) div 365;
          doy = doe - (365 * yoe + yoe div 4 - yoe div 100);
          mp = (5 * doy + 2) div 153;
          d = doy - (153 * mp + 2) div 5 + 1;
          m = (if mp < 10 then mp + 3 else mp - 9)
      in (if m \<le> 2 then yoe + era * 400 + 1 else yoe + era * 400, m, d))"

definition msPerDay :: int where
  "msPerDay = 86400000"

text \<open>
  The decoder of date serials: serial 25569 is 1970-01-01, serial 60 is the 29 February
  1900 that spreadsheets count, and serial 0 decodes to day 0 of January 1900.
\<close>

definition utcParseDateCode :: "jsnum \<Rightarrow> date_code option" where
  "utcParseDateCode x =
     (case x of
        Fin v \<Rightarrow>
          (if 2958465 < v \<or> v < 0 then None
           else (let date = \<lfloor>v\<rfloor>;
                     secs = \<lfloor>86400 * (v - of_int date)\<rfloor>;
                     ymd = (if date = 60 then (1900, 2, 29)
                            else if date = 0 then (1900, 1, 0)
                            else civilFromDays (if 60 < date then date - 25569 else date - 25568))
                 in Some \<lparr>dc_y = Fin (of_int (fst ymd)), dc_m = Fin (of_int (fst (snd ymd))),
                          dc_d = Fin (of_int (snd (snd ymd))),
                          dc_H = Fin (of_int (secs div 3600)),
                          dc_M = Fin (of_int ((secs div 60) mod 60)),
                          dc_S = Fin (of_int (secs mod 60))\<rparr>))
      | _ \<Rightarrow> None)"

definition utcNewDate :: "jsnum \<Rightarrow> jsnum \<Rightarrow> jsnum \<Rightarrow> jsnum \<Rightarrow> jsnum \<Rightarrow> jsnum \<Rightarrow> jsdate" where
  "utcNewDate y m d hh mm ss =
     (case (y, m, d, hh, mm, ss) of
        (Fin y', Fin m', Fin d', Fin hh', Fin mm', Fin ss') \<Rightarrow>
          (let yi = (if 0 \<le> trunc y' \<and> trunc y' \<le> 99 then 1900 + trunc y' else trunc y');
               day = daysFromCivil (yi + trunc m' div 12) (trunc m' mod 12 + 1) 1 + trunc d' - 1
           in timeClip (Fin (of_int (day * msPerDay + trunc hh' * 3600000 + trunc mm' * 60000
                                      + trunc ss' * 1000))))
      | _ \<Rightarrow> InvalidDate)"

definition utcDateParse :: "string \<Rightarrow> jsdate" where
  "utcDateParse s =
     (if length s = 10 \<and> s ! 4 = CHR ''-'' \<and> s ! 7 = CHR ''-''
      then (case (decimal 0 (take 4 s), decimal 0 (take 2 (drop 5 s)), decimal 0 (drop 8 s)) of
              (Some y, Some m, Some d) \<Rightarrow>
                (if 1 \<le> m \<and> m \<le> 12 \<and> 1 \<le> d \<and> d \<le> 31
                 then DateMs (daysFromCivil (int y) (int m) (int d) * msPerDay)
                 else InvalidDate)
            | _ \<Rightarrow> InvalidDate)
      else InvalidDate)"

definition utcSetHours :: "int \<Rightarrow> rat \<Rightarrow> rat \<Rightarrow> rat \<Rightarrow> rat \<Rightarrow> jsdate" where
  "utcSetHours t a b c e =
     timeClip (Fin (of_int ((t div msPerDay) * msPerDay + trunc a * 3600000 + trunc b * 60000
                            + trunc c * 1000 + trunc e)))"

definition pad :: "nat \<Rightarrow> int \<Rightarrow> string" where
  "pad k n = digitsOf k (nat n)"

definition utcIsoString :: "int \<Rightarrow> string" where
  "utcIsoString t =
     (let ymd = civilFromDays (t div msPerDay); r = t mod msPerDay
      in pad 4 (fst ymd) @ ''-'' @ pad 2 (fst (snd ymd)) @ ''-'' @ pad 2 (snd (snd ymd)) @ ''T''
         @ pad 2 (r div 3600000) @ '':'' @ pad 2 ((r div 60000) mod 60) @ '':''
         @ pad 2 ((r div 1000) mod 60) @ ''.'' @ pad 3 (r mod 1000) @ ''Z'')"

definition utcHost :: host where
  "utcHost =
     \<lparr>StringToNumber = utcStringToNumber,
      NumberToString = utcNumberToString,
      DateToString = (\<lambda>d. case d of InvalidDate \<Rightarrow> ''Invalid Date'' | DateMs t \<Rightarrow> utcIsoString t),
      trim = utcTrim,
      parse_date_code = utcParseDateCode,
      newDateLocal = utcNewDate,
      newDateString = utcDateParse,
      setHoursLocal = utcSetHours,
      fullYearLocal = (\<lambda>t. fst (civilFromDays (t div msPerDay))),
      monthLocal = (\<lambda>t. fst (snd (civilFromDays (t div msPerDay))) - 1),
      dayLocal = (\<lambda>t. (t div msPerDay + 4) mod 7),
      hoursLocal = (\<lambda>t. (t mod msPerDay) div 3600000),
      isoString = utcIsoString\<rparr>"

section \<open>Example rows and records\<close>

text \<open>
  The scenario of the specification: a post of Monday 2024-01-01 at 10:00 and one at 22:00
  the same day, the second given as a date serial and a fraction of a day; a third post on
  Sunday 2024-01-07. The records are what \<open>mapRowToPost\<close> returns for the rows on the UTC
  host (lemmas \<open>example_1_eval\<close>, \<open>example_2_eval\<close>, \<open>example_3_eval\<close>).
\<close>

definition emptyRow :: row where
  "emptyRow = (\<lambda>k. Undefined)"

definition example_row_1 :: row where
  "example_row_1 =
     emptyRow(col_date := CStr ''2024-01-01'', col_time := CStr ''10:00:00'',
              col_views_day := CNum (Fin 100), col_reactions := CNum (Fin 10),
              col_post_type := CStr ''news'', col_er := CStr [])"

definition example_post_1 :: PostRecord where
  "example_post_1 =
     \<lparr>post_id = 0, date = ''2024-01-01'', dateObj = DateMs 1704103200000,
      monthKey = ''2024-01'', weekdayIndex = Fin 1, weekdayLabel = Some (WEEKDAYS ! 1),
      hour = Fin 10, views = Fin 100, reactions = Fin 10, er = Fin (1 / 10),
      postType = ''news''\<rparr>"

definition example_row_2 :: row where
  "example_row_2 =
     emptyRow(col_date := CNum (Fin 45292), col_time := CNum (Fin (11 / 12)),
              col_views_day := CNum (Fin 50), col_reactions := CNum (Fin 25),
              col_post_type := CStr ''meme'')"

definition example_post_2 :: PostRecord where
  "example_post_2 =
     \<lparr>post_id = 1, date = ''2024-01-01T22:00:00.000Z'', dateObj = DateMs 1704146400000,
      monthKey = ''2024-01'', weekdayIndex = Fin 1, weekdayLabel = Some (WEEKDAYS ! 1),
      hour = Fin 22, views = Fin 50, reactions = Fin 25, er = Fin (1 / 2),
      postType = ''meme''\<rparr>"

definition example_row_3 :: row where
  "example_row_3 =
     emptyRow(col_date := CStr ''2024-01-07'', col_time := CStr ''09:00:00'',
              col_views_day := CNum (Fin 30), col_reactions := CNum (Fin 3),
              col_post_type := CStr ''news'', col_er := CStr [])"

definition example_post_3 :: PostRecord where
  "example_post_3 =
     \<lparr>post_id = 2, date = ''2024-01-07'', dateObj = DateMs 1704618000000,
      monthKey = ''2024-01'', weekdayIndex = Fin 0, weekdayLabel = Some (WEEKDAYS ! 0),
      hour = Fin 9, views = Fin 30, reactions = Fin 3, er = Fin (1 / 10),
      postType = ''news''\<rparr>"

text \<open>The state before the first upload.\<close>

definition initial_state :: app_state where
  "initial_state =
     \<lparr>posts = [], selectedMonth = ''all'', selectedPostType = ''all'',
      selectedWeekday = ''all''\<rparr>"

text \<open>A row with no views and no engagement-rate cell, and three rows at one heatmap cell.\<close>

definition zero_views_row :: row where
  "zero_views_row =
     emptyRow(col_date := CStr ''2024-01-01'', col_time := CStr ''09:00:00'',
              col_views_day := CNum (Fin 0), col_reactions := CNum (Fin 5), col_er := CStr [])"

definition zero_views_post :: PostRecord where
  "zero_views_post =
     \<lparr>post_id = 0, date = ''2024-01-01'', dateObj = DateMs 1704099600000,
      monthKey = ''2024-01'', weekdayIndex = Fin 1, weekdayLabel = Some (WEEKDAYS ! 1),
      hour = Fin 9, views = Fin 0, reactions = Fin 5, er = Fin 0, postType = no_type\<rparr>"

definition example_heat_posts :: "PostRecord list" where
  "example_heat_posts =
     [zero_views_post\<lparr>views := Fin 10\<rparr>, zero_views_post\<lparr>post_id := 1, views := Fin 20\<rparr>,
      zero_views_post\<lparr>post_id := 2, views := Fin 30\<rparr>]"

text \<open>A row whose date cell is the serial 0.\<close>

definition zero_serial_row :: row where
  "zero_serial_row = emptyRow(col_date := CNum (Fin 0), col_views_day := CNum (Fin 7))"

text \<open>A row with negative cells.\<close>

definition negative_row :: row where
  "negative_row =
     emptyRow(col_date := CStr ''2024-01-01'', col_time := CStr ''09:00:00'',
              col_views_day := CNum (Fin (- 5)), col_reactions := CNum (Fin (- 1)),
              col_er := CNum (Fin (- 10)))"

definition negative_post :: PostRecord where
  "negative_post =
     \<lparr>post_id = 0, date = ''2024-01-01'', dateObj = DateMs 1704099600000,
      monthKey = ''2024-01'', weekdayIndex = Fin 1, weekdayLabel = Some (WEEKDAYS ! 1),
      hour = Fin 9, views = Fin (- 5), reactions = Fin (- 1), er = Fin (- 1 / 10),
      postType = no_type\<rparr>"

text \<open>A row whose engagement-rate cell holds 25 (percent).\<close>

definition percent_row :: row where
  "percent_row =
     emptyRow(col_date := CStr ''2024-01-01'', col_time := CStr ''09:00:00'',
              col_views_day := CNum (Fin 200), col_reactions := CNum (Fin 10),
              col_er := CNum (Fin 25))"

definition percent_post :: PostRecord where
  "percent_post =
     \<lparr>post_id = 0, date = ''2024-01-01'', dateObj = DateMs 1704099600000,
      monthKey = ''2024-01'', weekdayIndex = Fin 1, weekdayLabel = Some (WEEKDAYS ! 1),
      hour = Fin 9, views = Fin 200, reactions = Fin 10, er = Fin (1 / 4),
      postType = no_type\<rparr>"

text \<open>
  Two rows whose time cell is the text \<open>Infinity\<close>, one with a date serial and one with a
  date string, and the record the second one yields.
\<close>

definition bad_time_row :: row where
  "bad_time_row =
     emptyRow(col_date := CNum (Fin 45294), col_time := CStr ''Infinity'',
              col_views_day := CNum (Fin 10), col_reactions := CNum (Fin 1))"

definition bad_time_row_text :: row where
  "bad_time_row_text =
     emptyRow(col_date := CStr ''2024-01-03'', col_time := CStr ''Infinity'',
              col_views_day := CNum (Fin 10), col_reactions := CNum (Fin 1))"

definition invalid_post :: PostRecord where
  "invalid_post =
     \<lparr>post_id = 1, date = ''2024-01-03'', dateObj = InvalidDate,
      monthKey = ''NaN-NaN'', weekdayIndex = NaN, weekdayLabel = None,
      hour = NaN, views = Fin 10, reactions = Fin 1, er = Fin (1 / 10),
      postType = no_type\<rparr>"

section \<open>The specification's notions\<close>

text \<open>
  The sum of a list of numbers in list order, starting from 0, and the mean: that sum
  divided by the number of values, in the arithmetic of the language.
\<close>

definition jsSum :: "jsnum list \<Rightarrow> jsnum" where
  "jsSum xs = foldl jsadd (Fin 0) xs"

definition jsMean :: "jsnum list \<Rightarrow> jsnum" where
  "jsMean xs = jsdiv (jsSum xs) (num (length xs))"

text \<open>A number of the interval \<open>[0, \<infinity>)\<close>.\<close>

definition nonNegFinite :: "jsnum \<Rightarrow> bool" where
  "nonNegFinite x = (case x of Fin a \<Rightarrow> 0 \<le> a | _ \<Rightarrow> False)"

text \<open>A selector lets a value pass when it is \<open>all\<close> or equal to the value.\<close>

definition selectorAllows :: "string \<Rightarrow> string option \<Rightarrow> bool" where
  "selectorAllows sel v = (sel = ''all'' \<or> v = Some sel)"

text \<open>The sum of the per-bucket counts of a map of bucket aggregates.\<close>

definition totalCount :: "(string \<times> BucketAgg) list \<Rightarrow> nat" where
  "totalCount m = sum_list (map (\<lambda>e. ba_count (snd e)) m)"

text \<open>
  The time value of a record with a valid date, in milliseconds, and the gap between two
  such records in hours: the difference of the time values divided by 3 600 000.
\<close>

definition timeMs :: "PostRecord \<Rightarrow> int" where
  "timeMs p = (case dateObj p of DateMs t \<Rightarrow> t | InvalidDate \<Rightarrow> 0)"






text \<open>The key of a heatmap cell and of a record; the records of one weekday index.\<close>

definition cellKey :: "HeatCell \<Rightarrow> jsnum \<times> jsnum" where
  "cellKey c = (hc_weekdayIndex c, hc_hour c)"

definition postKey :: "PostRecord \<Rightarrow> jsnum \<times> jsnum" where
  "postKey p = (weekdayIndex p, hour p)"

definition onWeekday :: "jsnum \<Rightarrow> PostRecord list \<Rightarrow> PostRecord list" where
  "onWeekday k fp = filter (\<lambda>p. weekdayIndex p = k) fp"

text \<open>
  \<open>m\<close> is a maximum of \<open>xs\<close>; \<open>xs\<close> holds no \<open>NaN\<close> and some positive number.
\<close>

definition isMaxOf :: "jsnum \<Rightarrow> jsnum list \<Rightarrow> bool" where
  "isMaxOf m xs = (m \<in> set xs \<and> (\<forall>x\<in>set xs. jsle x m))"

definition positiveMeans :: "jsnum list \<Rightarrow> bool" where
  "positiveMeans xs = (NaN \<notin> set xs \<and> (\<exists>x\<in>set xs. jsgt x (Fin 0)))"

section \<open>Auxiliary definitions of the proofs\<close>


text \<open>
  The position in \<open>GAP_BUCKETS\<close> of the bucket that the program picks for a gap (the last
  one for a gap in no range), and the later posts of the pairs for which it picks the
  bucket at position \<open>k\<close>.
\<close>

definition gapRange :: "jsnum \<Rightarrow> nat" where
  "gapRange g =
     (case g of
        Fin x \<Rightarrow>
          (if 0 \<le> x \<and> x < 6 then 0
           else if 6 \<le> x \<and> x < 12 then 1
           else if 12 \<le> x \<and> x < 24 then 2
           else if 24 \<le> x \<and> x < 48 then 3
           else 4)
      | _ \<Rightarrow> 4)"


text \<open>
  The three group-by loops (weekday views, weekday engagement rate, heatmap) are instances
  of one step: create the entry of the key when it is absent, then update it.
\<close>

definition groupStep ::
  "('p \<Rightarrow> 'k) \<Rightarrow> ('p \<Rightarrow> 'v) \<Rightarrow> ('v \<Rightarrow> 'p \<Rightarrow> 'v) \<Rightarrow> ('k \<times> 'v) list \<Rightarrow> 'p \<Rightarrow> error + ('k \<times> 'v) list" where
  "groupStep key init upd m p =
     (let m1 = (if map_of m (key p) = None then mapSet (key p) (init p) m else m)
      in case map_of m1 (key p) of
           None \<Rightarrow> Inl TypeError
         | Some e \<Rightarrow> Inr (mapSet (key p) (upd e p) m1))"

fun groupVal :: "('p \<Rightarrow> 'v) \<Rightarrow> ('v \<Rightarrow> 'p \<Rightarrow> 'v) \<Rightarrow> 'v option \<Rightarrow> 'p list \<Rightarrow> 'v option" where
  "groupVal init upd (Some e) ps = Some (foldl upd e ps)"
| "groupVal init upd None [] = None"
| "groupVal init upd None (p # ps) = Some (foldl upd (init p) (p # ps))"

definition wvInit :: "PostRecord \<Rightarrow> WeekdayViewsAgg" where
  "wvInit p = \<lparr>wv_weekday = weekdayLabel p, wv_viewsSum = Fin 0, wv_count = 0\<rparr>"

definition wvUpd :: "WeekdayViewsAgg \<Rightarrow> PostRecord \<Rightarrow> WeekdayViewsAgg" where
  "wvUpd entry p =
     entry\<lparr>wv_viewsSum := jsadd (wv_viewsSum entry) (views p), wv_count := wv_count entry + 1\<rparr>"

definition weInit :: "PostRecord \<Rightarrow> WeekdayErAgg" where
  "weInit p = \<lparr>we_weekday = weekdayLabel p, we_erSum = Fin 0, we_count = 0\<rparr>"

definition weUpd :: "WeekdayErAgg \<Rightarrow> PostRecord \<Rightarrow> WeekdayErAgg" where
  "weUpd entry p =
     entry\<lparr>we_erSum := jsadd (we_erSum entry) (er p), we_count := we_count entry + 1\<rparr>"

definition heatInit :: "PostRecord \<Rightarrow> HeatAgg" where
  "heatInit p =
     \<lparr>ha_weekdayIndex = weekdayIndex p, ha_weekday = weekdayLabel p, ha_hour = hour p,
      ha_viewsSum = Fin 0, ha_count = 0\<rparr>"

definition heatUpd :: "HeatAgg \<Rightarrow> PostRecord \<Rightarrow> HeatAgg" where
  "heatUpd cell p =
     cell\<lparr>ha_viewsSum := jsadd (ha_viewsSum cell) (views p), ha_count := ha_count cell + 1\<rparr>"

text \<open>The value of a finite number.\<close>

fun ratOf :: "jsnum \<Rightarrow> rat" where
  "ratOf (Fin a) = a"
| "ratOf _ = 0"

section \<open>Facts about numbers\<close>

lemma jsle_refl: "a \<noteq> NaN \<Longrightarrow> jsle a a"
  by (cases a) (simp_all add: jsle_def jsge_def)

lemma jsle_trans: "jsle a b \<Longrightarrow> jsle b c \<Longrightarrow> jsle a c"
  by (cases a; cases b; cases c) (simp_all add: jsle_def jsge_def)

lemma jslt_finite: "isFinite a \<Longrightarrow> isFinite b \<Longrightarrow> jslt a b = (ratOf a < ratOf b)"
  by (cases a; cases b) simp_all

lemma jslt_NaN: "\<not> jslt NaN x" "\<not> jslt x NaN"
  by (cases x; simp)+

lemma Fin_ratOf: "isFinite a \<Longrightarrow> Fin (ratOf a) = a"
  by (cases a) simp_all

lemma orNum_not_NaN: "orNum a (Fin 0) \<noteq> NaN"
  by (simp add: orNum_def truthyNum_def)

lemma orNum_NaN: "orNum NaN (Fin 0) = Fin 0"
  by (simp add: orNum_def truthyNum_def)

lemma orNum_nonneg: "\<not> jslt a (Fin 0) \<Longrightarrow> jsge (orNum a (Fin 0)) (Fin 0)"
  by (cases a) (simp_all add: orNum_def truthyNum_def jsge_def)

lemma Math_max_cases:
  "a \<noteq> NaN \<Longrightarrow> b \<noteq> NaN \<Longrightarrow>
   (Math_max a b = a \<or> Math_max a b = b) \<and> Math_max a b \<noteq> NaN \<and>
   jsle a (Math_max a b) \<and> jsle b (Math_max a b)"
  by (cases a; cases b) (auto simp: jsle_def jsge_def)

lemma Math_max_NaN: "Math_max NaN b = NaN" "Math_max a NaN = NaN"
  by (cases a; simp)+

lemma foldl_max_NaN: "foldl Math_max NaN xs = NaN"
  by (induction xs) (simp_all add: Math_max_NaN)

lemma foldl_max_has_NaN: "NaN \<in> set xs \<Longrightarrow> foldl Math_max a xs = NaN"
proof (induction xs arbitrary: a)
  case Nil
  then show ?case by simp
next
  case (Cons x xs)
  show ?case
  proof (cases "x = NaN")
    case True
    then show ?thesis by (simp add: Math_max_NaN foldl_max_NaN)
  next
    case False
    then show ?thesis using Cons by simp
  qed
qed

lemma foldl_max_bounds:
  "a \<noteq> NaN \<Longrightarrow> NaN \<notin> set xs \<Longrightarrow>
   (foldl Math_max a xs = a \<or> foldl Math_max a xs \<in> set xs) \<and>
   foldl Math_max a xs \<noteq> NaN \<and>
   jsle a (foldl Math_max a xs) \<and> (\<forall>x\<in>set xs. jsle x (foldl Math_max a xs))"
proof (induction xs arbitrary: a)
  case Nil
  then show ?case by (simp add: jsle_refl)
next
  case (Cons x xs)
  have x: "x \<noteq> NaN" and xs: "NaN \<notin> set xs" using Cons.prems by auto
  note mc = Math_max_cases[OF Cons.prems(1) x]
  have ih: "(foldl Math_max (Math_max a x) xs = Math_max a x \<or>
             foldl Math_max (Math_max a x) xs \<in> set xs) \<and>
            foldl Math_max (Math_max a x) xs \<noteq> NaN \<and>
            jsle (Math_max a x) (foldl Math_max (Math_max a x) xs) \<and>
            (\<forall>y\<in>set xs. jsle y (foldl Math_max (Math_max a x) xs))"
    using Cons.IH[of "Math_max a x"] mc xs by blast
  have "jsle a (foldl Math_max (Math_max a x) xs)"
    using mc ih jsle_trans by blast
  moreover have "jsle x (foldl Math_max (Math_max a x) xs)"
    using mc ih jsle_trans by blast
  moreover have "foldl Math_max (Math_max a x) xs = a \<or>
                 foldl Math_max (Math_max a x) xs \<in> set (x # xs)"
    using mc ih by auto
  ultimately show ?case using ih by simp
qed

lemma nonneg_not_pos: "jsle (Fin 0) m \<Longrightarrow> \<not> jsgt m (Fin 0) \<Longrightarrow> m = Fin 0"
  by (cases m) (auto simp: jsle_def jsge_def jsgt_def)

lemma pos_le_pos: "jsgt x (Fin 0) \<Longrightarrow> jsle x m \<Longrightarrow> truthyNum m"
  by (cases x; cases m) (auto simp: jsle_def jsge_def jsgt_def truthyNum_def)

text \<open>\<open>cells.reduce((m, c) => Math.max(m, c.avgViews), 0) || 1\<close> on the list of means.\<close>

lemma max_or_one:
  "(positiveMeans xs \<longrightarrow> isMaxOf (orNum (foldl Math_max (Fin 0) xs) (Fin 1)) xs) \<and>
   (\<not> positiveMeans xs \<longrightarrow> orNum (foldl Math_max (Fin 0) xs) (Fin 1) = Fin 1)"
proof (cases "NaN \<in> set xs")
  case True
  then show ?thesis
    by (simp add: positiveMeans_def foldl_max_has_NaN orNum_def truthyNum_def)
next
  case False
  let ?M = "foldl Math_max (Fin 0) xs"
  have b: "(?M = Fin 0 \<or> ?M \<in> set xs) \<and> ?M \<noteq> NaN \<and> jsle (Fin 0) ?M \<and>
           (\<forall>x\<in>set xs. jsle x ?M)"
    using foldl_max_bounds[of "Fin 0" xs] False by simp
  show ?thesis
  proof (cases "\<exists>x\<in>set xs. jsgt x (Fin 0)")
    case True
    then obtain x where x: "x \<in> set xs" "jsgt x (Fin 0)" by blast
    then have t: "truthyNum ?M" using b pos_le_pos by blast
    then have "?M \<noteq> Fin 0" by (simp add: truthyNum_def)
    then have "isMaxOf ?M xs" using b by (simp add: isMaxOf_def)
    then show ?thesis using t True False by (simp add: orNum_def positiveMeans_def)
  next
    case no: False
    have "?M = Fin 0"
    proof (cases "?M \<in> set xs")
      case True
      then have "\<not> jsgt ?M (Fin 0)" using no by blast
      then show ?thesis using b nonneg_not_pos by blast
    next
      case False
      then show ?thesis using b by blast
    qed
    then show ?thesis using no by (simp add: orNum_def truthyNum_def positiveMeans_def)
  qed
qed

section \<open>Facts about maps\<close>

lemma map_of_mapSet: "map_of (mapSet k v m) = (map_of m)(k \<mapsto> v)"
  by (induction m) (auto simp: fun_eq_iff)

lemma keys_mapSet_present: "map_of m k = Some a \<Longrightarrow> map fst (mapSet k v m) = map fst m"
  by (induction m) (auto split: if_splits)

lemma keys_mapSet_absent: "map_of m k = None \<Longrightarrow> map fst (mapSet k v m) = map fst m @ [k]"
  by (induction m) (auto split: if_splits)

lemma map_of_None_keys: "(map_of m k = None) = (k \<notin> set (map fst m))"
  by (induction m) auto

lemma distinct_mapSet: "distinct (map fst m) \<Longrightarrow> distinct (map fst (mapSet k v m))"
proof (cases "map_of m k")
  case None
  assume "distinct (map fst m)"
  then show ?thesis
    using None keys_mapSet_absent[OF None, of v] by (simp add: map_of_None_keys)
next
  case (Some a)
  assume "distinct (map fst m)"
  then show ?thesis
    using keys_mapSet_present[OF Some, of v] by simp
qed

lemma set_keys_mapSet: "fst ` set (mapSet k v m) = insert k (fst ` set m)"
  by (induction m) auto

lemma key_present: "k \<in> set (map fst m) \<Longrightarrow> \<exists>a. map_of m k = Some a"
  by (induction m) auto


section \<open>Facts about the sort\<close>

lemma length_jsInsert: "length (jsInsert cmp x ys) = Suc (length ys)"
  by (induction ys) auto

lemma length_jsSort: "length (jsSort cmp xs) = length xs"
  by (induction xs) (auto simp: jsSort_def length_jsInsert)

lemma mset_jsInsert: "mset (jsInsert cmp x ys) = add_mset x (mset ys)"
  by (induction ys) auto

lemma mset_jsSort: "mset (jsSort cmp xs) = mset xs"
  by (induction xs) (simp_all add: jsSort_def mset_jsInsert)

lemma set_jsSort: "set (jsSort cmp xs) = set xs"
  using mset_jsSort[of cmp xs] by (metis set_mset_mset)

lemma distinct_keys_jsSort: "distinct (map fst (jsSort cmp m)) = distinct (map fst m)"
proof -
  have "mset (map fst (jsSort cmp m)) = mset (map fst m)"
    by (simp add: mset_jsSort)
  then show ?thesis by (rule mset_eq_imp_distinct_iff)
qed

text \<open>
  Where the comparator agrees with a linear order of keys, the model of the sort is the
  stable insertion sort by key of the library.
\<close>

lemma jsInsert_insort:
  fixes f :: "'a \<Rightarrow> 'b::linorder"
  shows "(\<forall>y\<in>set ys. jsgt (cmp x y) (Fin 0) = (f y < f x)) \<Longrightarrow>
         jsInsert cmp x ys = insort_key f x ys"
  by (induction ys) (auto simp: not_less)

lemma jsSort_sort_key:
  fixes f :: "'a \<Rightarrow> 'b::linorder"
  shows "(\<forall>x\<in>set xs. \<forall>y\<in>set xs. jsgt (cmp x y) (Fin 0) = (f y < f x)) \<Longrightarrow>
         jsSort cmp xs = sort_key f xs"
proof (induction xs)
  case Nil
  then show ?case by (simp add: jsSort_def)
next
  case (Cons x xs)
  have ih: "jsSort cmp xs = sort_key f xs"
    using Cons by simp
  have "\<forall>y\<in>set (sort_key f xs). jsgt (cmp x y) (Fin 0) = (f y < f x)"
    using Cons.prems by simp
  then have "jsInsert cmp x (sort_key f xs) = insort_key f x (sort_key f xs)"
    by (rule jsInsert_insort)
  then show ?case
    using ih by (simp add: jsSort_def)
qed

lemma byKey_finite:
  "isFinite (fst x) \<Longrightarrow> isFinite (fst y) \<Longrightarrow>
   jsgt (byKey x y) (Fin 0) = (ratOf (fst y) < ratOf (fst x))"
  by (cases "fst x"; cases "fst y") (simp_all add: byKey_def jssub_def jsgt_def)

lemma byTime_valid:
  "dateObj a \<noteq> InvalidDate \<Longrightarrow> dateObj b \<noteq> InvalidDate \<Longrightarrow>
   jsgt (byTime a b) (Fin 0) = (timeMs b < timeMs a)"
  by (cases "dateObj a"; cases "dateObj b") (simp_all add: byTime_def jssub_def jsgt_def timeMs_def)

lemma sorted_keys:
  assumes fin: "\<forall>e\<in>set m. isFinite (fst e)" and d: "distinct (map fst m)"
  shows "sorted_wrt jslt (map fst (jsSort byKey m))"
proof -
  let ?f = "\<lambda>e. ratOf (fst e)"
  have s: "jsSort byKey m = sort_key ?f m"
    using fin by (intro jsSort_sort_key) (simp add: byKey_finite)
  have inj: "inj_on ratOf (set (map fst m))"
  proof (rule inj_onI)
    fix a b assume a: "a \<in> set (map fst m)" and b: "b \<in> set (map fst m)"
      and e: "ratOf a = ratOf b"
    have "isFinite a" "isFinite b" using a b fin by auto
    then show "a = b" using e by (metis Fin_ratOf)
  qed
  have "distinct (map ?f m)"
    using d inj by (simp add: distinct_map comp_def inj_on_def)
  then have "distinct (map ?f (sort_key ?f m))"
    by (metis distinct_map distinct_sort set_sort comp_def distinct_map)
  moreover have "sorted (map ?f (sort_key ?f m))"
    by (rule sorted_sort_key)
  ultimately have "sorted_wrt (<) (map ?f (sort_key ?f m))"
    by (simp add: strict_sorted_iff)
  then have "sorted_wrt (\<lambda>a b. ratOf (fst a) < ratOf (fst b)) (sort_key ?f m)"
    by (simp add: sorted_wrt_map)
  then have "sorted_wrt (\<lambda>a b. jslt (fst a) (fst b)) (sort_key ?f m)"
    using fin by (elim sorted_wrt_mono_rel[rotated]) (simp add: jslt_finite)
  then show ?thesis
    using s by (simp add: sorted_wrt_map)
qed

text \<open>With a \<open>NaN\<close> among two keys or more, no arrangement of the keys is ascending.\<close>

lemma no_order_with_NaN:
  assumes "NaN \<in> set ks" and "2 \<le> length ks"
  shows "\<not> sorted_wrt jslt ks"
proof
  assume s: "sorted_wrt jslt ks"
  obtain i where i: "i < length ks" "ks ! i = NaN"
    using assms(1) by (auto simp: in_set_conv_nth)
  define j where "j = (if i = 0 then 1 else (0::nat))"
  have j: "j < length ks" "j \<noteq> i"
    using assms(2) by (auto simp: j_def)
  show False
  proof (cases "i < j")
    case True
    then have "jslt (ks ! i) (ks ! j)"
      using s j(1) by (simp add: sorted_wrt_iff_nth_less)
    then show False using i by (simp add: jslt_NaN)
  next
    case False
    then have "j < i" using j by simp
    then have "jslt (ks ! j) (ks ! i)"
      using s i(1) by (simp add: sorted_wrt_iff_nth_less)
    then show False using i by (simp add: jslt_NaN)
  qed
qed

section \<open>The group-by loop\<close>

lemma groupStep_result:
  "groupStep key init upd m p =
     Inr (mapSet (key p) (upd (case map_of m (key p) of None \<Rightarrow> init p | Some e \<Rightarrow> e) p)
            (if map_of m (key p) = None then mapSet (key p) (init p) m else m))"
  by (cases "map_of m (key p)") (simp_all add: groupStep_def map_of_mapSet)

lemma map_of_groupStep:
  "groupStep key init upd m p = Inr m2 \<Longrightarrow>
   map_of m2 = (map_of m)(key p \<mapsto> upd (case map_of m (key p) of None \<Rightarrow> init p | Some e \<Rightarrow> e) p)"
  by (cases "map_of m (key p)") (auto simp: groupStep_result map_of_mapSet)

lemma keys_groupStep:
  "groupStep key init upd m p = Inr m2 \<Longrightarrow>
   fst ` set m2 = insert (key p) (fst ` set m) \<and>
   (distinct (map fst m) \<longrightarrow> distinct (map fst m2))"
proof -
  assume "groupStep key init upd m p = Inr m2"
  then have m2: "m2 = mapSet (key p) (upd (case map_of m (key p) of None \<Rightarrow> init p | Some e \<Rightarrow> e) p)
            (if map_of m (key p) = None then mapSet (key p) (init p) m else m)"
    by (simp add: groupStep_result)
  have "fst ` set m2 = insert (key p) (fst ` set m)"
    unfolding m2 by (simp add: set_keys_mapSet)
  moreover have "distinct (map fst m) \<longrightarrow> distinct (map fst m2)"
    unfolding m2 by (simp add: distinct_mapSet)
  ultimately show ?thesis by (rule conjI)
qed

lemma group_loop:
  "\<exists>m'. foldE (groupStep key init upd) m fp = Inr m' \<and>
        fst ` set m' = fst ` set m \<union> key ` set fp \<and>
        (distinct (map fst m) \<longrightarrow> distinct (map fst m')) \<and>
        (\<forall>k. map_of m' k = groupVal init upd (map_of m k) (filter (\<lambda>p. key p = k) fp))"
proof (induction fp arbitrary: m)
  case Nil
  show ?case
  proof -
    have "map_of m k = groupVal init upd (map_of m k) []" for k
      by (cases "map_of m k") simp_all
    then show ?thesis by simp
  qed
next
  case (Cons p fp)
  obtain m2 where m2: "groupStep key init upd m p = Inr m2"
    using groupStep_result[of key init upd m p] by blast
  note mo = map_of_groupStep[OF m2]
  note ks = keys_groupStep[OF m2]
  obtain m' where loop: "foldE (groupStep key init upd) m2 fp = Inr m'"
    and keys: "fst ` set m' = fst ` set m2 \<union> key ` set fp"
    and dist: "distinct (map fst m2) \<longrightarrow> distinct (map fst m')"
    and vals: "\<forall>k. map_of m' k = groupVal init upd (map_of m2 k) (filter (\<lambda>p. key p = k) fp)"
    using Cons.IH[of m2] by blast
  have "map_of m' k = groupVal init upd (map_of m k) (filter (\<lambda>p. key p = k) (p # fp))" for k
  proof (cases "key p = k")
    case True
    then show ?thesis
      using vals mo by (cases "map_of m k") auto
  next
    case False
    then show ?thesis
      using vals mo by simp
  qed
  then show ?case
    using m2 loop keys dist ks by auto
qed

lemma group_loop_empty:
  "\<exists>m'. foldE (groupStep key init upd) [] fp = Inr m' \<and>
        fst ` set m' = key ` set fp \<and> distinct (map fst m') \<and>
        (\<forall>k. map_of m' k = groupVal init upd None (filter (\<lambda>p. key p = k) fp))"
  using group_loop[of key init upd "[]" fp] by simp

lemma groupVal_None_Some:
  "groupVal init upd None ps = Some v \<Longrightarrow> ps \<noteq> [] \<and> v = foldl upd (init (hd ps)) ps"
  by (cases ps) simp_all

lemma group_entry:
  assumes d: "distinct (map fst m)"
    and vals: "\<forall>k. map_of m k = groupVal init upd None (filter (\<lambda>p. key p = k) fp)"
    and e: "e \<in> set m"
  shows "filter (\<lambda>p. key p = fst e) fp \<noteq> [] \<and>
         snd e = foldl upd (init (hd (filter (\<lambda>p. key p = fst e) fp)))
                   (filter (\<lambda>p. key p = fst e) fp)"
proof -
  have "map_of m (fst e) = Some (snd e)"
    using e d by simp
  moreover have "map_of m (fst e) = groupVal init upd None (filter (\<lambda>p. key p = fst e) fp)"
    using vals by blast
  ultimately have "groupVal init upd None (filter (\<lambda>p. key p = fst e) fp) = Some (snd e)"
    by simp
  then show ?thesis by (rule groupVal_None_Some)
qed

section \<open>The examples, evaluated\<close>

lemma example_1_eval: "mapRowToPost utcHost example_row_1 0 = Inr (Some example_post_1)"
  by code_simp

lemma example_2_eval: "mapRowToPost utcHost example_row_2 (Suc 0) = Inr (Some example_post_2)"
  by code_simp


lemma example_3_eval:
  "mapRowToPost utcHost example_row_3 (Suc (Suc 0)) = Inr (Some example_post_3)"
  by code_simp

lemma zero_views_eval: "mapRowToPost utcHost zero_views_row 0 = Inr (Some zero_views_post)"
  by code_simp

lemma negative_eval: "mapRowToPost utcHost negative_row 0 = Inr (Some negative_post)"
  by code_simp

lemma percent_eval: "mapRowToPost utcHost percent_row 0 = Inr (Some percent_post)"
  by code_simp

lemma bad_time_eval: "mapRowToPost utcHost bad_time_row (Suc 0) = Inl RangeError"
  by code_simp

lemma bad_time_text_eval: "mapRowToPost utcHost bad_time_row_text (Suc 0) = Inr (Some invalid_post)"
  by code_simp

lemma ex_sorted: "jsSort byTime [example_post_1, example_post_2] = [example_post_1, example_post_2]"
  by (simp add: jsSort_def byTime_def jssub_def jsgt_def example_post_1_def example_post_2_def)

lemma ex_gap: "gapHours example_post_1 example_post_2 = Fin 12"
  by (simp add: gapHours_def jssub_def example_post_1_def example_post_2_def)

lemma heat_example_eval:
  "heatmapData example_heat_posts =
     Inr \<lparr>cells = [\<lparr>hc_weekdayIndex = Fin 1, hc_weekday = Some (WEEKDAYS ! 1), hc_hour = Fin 9,
                     hc_avgViews = Fin 20\<rparr>],
          maxViews = Fin 20\<rparr>"
  by code_simp

lemma weekday_example_eval:
  "viewsByWeekday [example_post_1, example_post_2, example_post_3] =
     Inr [\<lparr>vw_weekday = Some (WEEKDAYS ! 0), vw_avgViews = Fin 30\<rparr>,
          \<lparr>vw_weekday = Some (WEEKDAYS ! 1), vw_avgViews = Fin 75\<rparr>]"
  "erByWeekday [example_post_1, example_post_2, example_post_3] =
     Inr [\<lparr>ew_weekday = Some (WEEKDAYS ! 0), ew_avgErPercent = Fin 10\<rparr>,
          \<lparr>ew_weekday = Some (WEEKDAYS ! 1), ew_avgErPercent = Fin 30\<rparr>]"
  by code_simp+

lemma upload_text_eval:
  "handleFileUpload utcHost [example_row_1, bad_time_row_text, example_row_3] initial_state =
     Inr (initial_state\<lparr>posts := [example_post_1, invalid_post, example_post_3]\<rparr>)"
proof -
  have s: "jsSort byTime [example_post_1, invalid_post, example_post_3] =
           [example_post_1, invalid_post, example_post_3]"
    by (simp add: jsSort_def byTime_def jssub_def jsgt_def example_post_1_def invalid_post_def
        example_post_3_def)
  show ?thesis
    by (simp add: handleFileUpload_def example_1_eval bad_time_text_eval example_3_eval s
        initial_state_def)
qed

section \<open>Properties of the Row Normalizer\<close>

lemma mapRowToPost_fields:
  assumes "mapRowToPost h row i = Inr (Some p)"
  shows "views p = orNum (js_Number h (nullish (row col_views_day) (row col_views_total))) (Fin 0)"
    and "reactions p = orNum (js_Number h (row col_reactions)) (Fin 0)"
    and "er p = resolveEr h (row col_er) (views p) (reactions p)"
    and "post_id p = i"
  using assms
  by (auto simp: mapRowToPost_def Let_def split: option.splits sum.splits cell.splits)

text \<open>
  Claim C10. A row whose date cell is the number 0, the empty string, \<open>null\<close> or
  \<open>undefined\<close> is skipped. \<open>parseDate\<close> returns \<open>null\<close> on the falsy value whatever the host
  is, so neither the serial decoder nor the string parser decides; \<open>mapRowToPost\<close> returns
  \<open>null\<close>, and the loop of the upload goes on as if the row were not there.
\<close>

theorem falsy_date_skipped:
  "row col_date \<in> {CNum (Fin 0), CStr [], Null, Undefined} \<Longrightarrow>
   parseDate h (row col_date) = None \<and> mapRowToPost h row i = Inr None \<and>
   parseRows h (row # rows) i acc = parseRows h rows (Suc i) acc"
proof -
  assume "row col_date \<in> {CNum (Fin 0), CStr [], Null, Undefined}"
  then have "\<not> truthy (row col_date)"
    by (auto simp: truthyNum_def)
  then have p: "parseDate h (row col_date) = None"
    by (simp add: parseDate_def)
  then have m: "mapRowToPost h row i = Inr None"
    by (simp add: mapRowToPost_def)
  then show ?thesis using p by simp
qed

text \<open>
  On the UTC host the serial 0 does decode to a date, and the row is skipped all the same.
\<close>

theorem falsy_date_skipped_witness:
  "zero_serial_row col_date \<in> {CNum (Fin 0), CStr [], Null, Undefined} \<and>
   parse_date_code utcHost (Fin 0) \<noteq> None \<and>
   parseDate utcHost (zero_serial_row col_date) = None \<and>
   mapRowToPost utcHost zero_serial_row 0 = Inr None \<and>
   parseRows utcHost [zero_serial_row] 0 [] = Inr []"
proof -
  have d: "zero_serial_row col_date = CNum (Fin 0)"
    by (simp add: zero_serial_row_def emptyRow_def col_date_def col_views_day_def)
  have c: "parse_date_code utcHost (Fin 0) \<noteq> None"
    by (simp add: utcHost_def utcParseDateCode_def)
  show ?thesis
    using falsy_date_skipped[of zero_serial_row utcHost 0 "[]" "[]"] d c by simp
qed

text \<open>
  Claim C3. For a row without an engagement-rate cell (\<open>undefined\<close>, \<open>null\<close> or the empty
  string) the stored rate is \<open>reactions / views\<close> when \<open>views > 0\<close> and 0 otherwise. In
  particular it is 0, not \<open>NaN\<close> or an infinity, when views is 0, and the one division of
  this path has a divisor that is not 0.
\<close>

theorem er_fallback:
  "mapRowToPost h row i = Inr (Some p) \<Longrightarrow> row col_er \<in> {Undefined, Null, CStr []} \<Longrightarrow>
   er p = (if jsgt (views p) (Fin 0) then jsdiv (reactions p) (views p) else Fin 0) \<and>
   (views p = Fin 0 \<longrightarrow> er p = Fin 0) \<and>
   (jsgt (views p) (Fin 0) \<longrightarrow> views p \<noteq> Fin 0)"
proof -
  assume m: "mapRowToPost h row i = Inr (Some p)" and e: "row col_er \<in> {Undefined, Null, CStr []}"
  have "er p = resolveEr h (row col_er) (views p) (reactions p)"
    using m by (rule mapRowToPost_fields)
  then have "er p = (if jsgt (views p) (Fin 0) then jsdiv (reactions p) (views p) else Fin 0)"
    using e by (auto simp: resolveEr_def)
  then show ?thesis by (auto simp: jsgt_def)
qed

text \<open>The row with 0 views has the rate 0; the first example row has the rate 10 / 100.\<close>

theorem er_fallback_witness:
  "mapRowToPost utcHost zero_views_row 0 = Inr (Some zero_views_post) \<and>
   zero_views_row col_er \<in> {Undefined, Null, CStr []} \<and>
   views zero_views_post = Fin 0 \<and> er zero_views_post = Fin 0 \<and>
   mapRowToPost utcHost example_row_1 0 = Inr (Some example_post_1) \<and>
   example_row_1 col_er \<in> {Undefined, Null, CStr []} \<and>
   jsgt (views example_post_1) (Fin 0) \<and> er example_post_1 = Fin (10 / 100)"
proof -
  have z: "zero_views_row col_er = CStr []"
    by (simp add: zero_views_row_def col_er_def)
  have x: "example_row_1 col_er = CStr []"
    by (simp add: example_row_1_def col_er_def)
  have v: "views zero_views_post = Fin 0" "views example_post_1 = Fin 100"
    "reactions example_post_1 = Fin 10"
    by (simp_all add: zero_views_post_def example_post_1_def)
  show ?thesis
    using er_fallback[OF zero_views_eval] er_fallback[OF example_1_eval] z x v
      zero_views_eval example_1_eval
    by (simp add: jsgt_def)
qed

lemma resolveEr_explicit:
  "erRaw \<notin> {Undefined, Null, CStr []} \<Longrightarrow>
   resolveEr h erRaw v r =
     (if isFinite (js_Number h erRaw) then jsdiv (js_Number h erRaw) (Fin 100) else Fin 0)"
  by (simp add: resolveEr_def Let_def)

lemma resolveEr_derived:
  "erRaw \<in> {Undefined, Null, CStr []} \<Longrightarrow>
   resolveEr h erRaw v r = (if jsgt v (Fin 0) then jsdiv r v else Fin 0)"
  by (auto simp: resolveEr_def)

lemma percent_nonneg:
  "\<not> jslt x (Fin 0) \<Longrightarrow> nonNegFinite (if isFinite x then jsdiv x (Fin 100) else Fin 0)"
  by (cases x) (simp_all add: nonNegFinite_def)

lemma quotient_nonneg:
  "nonNegFinite r \<Longrightarrow> jsge (if jsgt v (Fin 0) then jsdiv r v else Fin 0) (Fin 0)"
  by (cases r; cases v) (simp_all add: nonNegFinite_def jsgt_def jsge_def not_less)

text \<open>
  Claim C8, as the code has it. The views and the reactions of a record are the numeric
  values of their cells, or 0 when that value is \<open>NaN\<close> (an absent or unparseable cell) or
  0. They are never \<open>NaN\<close>, and they are non-negative when the numeric value of the cell is
  not negative. The engagement rate of a row with an engagement-rate cell is the numeric
  value of the cell divided by 100, or 0 when that value is not finite; without the cell
  it is \<open>reactions / views\<close> when \<open>views > 0\<close> and 0 otherwise. With the cell, the rate lies
  in \<open>[0, \<infinity>)\<close> when the value of the cell is not negative. Without it, the rate is not
  negative and not \<open>NaN\<close> when the reactions are a finite non-negative number; that it is
  finite is not stated, since the quotient of two doubles can exceed the largest double.
\<close>

theorem counts_and_rate:
  "mapRowToPost h row i = Inr (Some p) \<Longrightarrow>
   views p = orNum (js_Number h (nullish (row col_views_day) (row col_views_total))) (Fin 0) \<and>
   reactions p = orNum (js_Number h (row col_reactions)) (Fin 0) \<and>
   views p \<noteq> NaN \<and> reactions p \<noteq> NaN \<and>
   (js_Number h (nullish (row col_views_day) (row col_views_total)) = NaN \<longrightarrow> views p = Fin 0) \<and>
   (js_Number h (row col_reactions) = NaN \<longrightarrow> reactions p = Fin 0) \<and>
   (\<not> jslt (js_Number h (nullish (row col_views_day) (row col_views_total))) (Fin 0) \<longrightarrow>
      jsge (views p) (Fin 0)) \<and>
   (\<not> jslt (js_Number h (row col_reactions)) (Fin 0) \<longrightarrow> jsge (reactions p) (Fin 0)) \<and>
   (row col_er \<notin> {Undefined, Null, CStr []} \<longrightarrow>
      er p = (if isFinite (js_Number h (row col_er))
              then jsdiv (js_Number h (row col_er)) (Fin 100) else Fin 0)) \<and>
   (row col_er \<in> {Undefined, Null, CStr []} \<longrightarrow>
      er p = (if jsgt (views p) (Fin 0) then jsdiv (reactions p) (views p) else Fin 0)) \<and>
   (row col_er \<notin> {Undefined, Null, CStr []} \<and> \<not> jslt (js_Number h (row col_er)) (Fin 0) \<longrightarrow>
      nonNegFinite (er p)) \<and>
   (row col_er \<in> {Undefined, Null, CStr []} \<and> nonNegFinite (reactions p) \<longrightarrow>
      jsge (er p) (Fin 0))"
proof -
  assume m: "mapRowToPost h row i = Inr (Some p)"
  note f = mapRowToPost_fields[OF m]
  have x: "er p = (if isFinite (js_Number h (row col_er))
              then jsdiv (js_Number h (row col_er)) (Fin 100) else Fin 0)"
    if "row col_er \<notin> {Undefined, Null, CStr []}"
    unfolding f(3) using that by (rule resolveEr_explicit)
  have d: "er p = (if jsgt (views p) (Fin 0) then jsdiv (reactions p) (views p) else Fin 0)"
    if "row col_er \<in> {Undefined, Null, CStr []}"
    unfolding f(3) using that by (rule resolveEr_derived)
  have xr: "nonNegFinite (er p)"
    if "row col_er \<notin> {Undefined, Null, CStr []}" "\<not> jslt (js_Number h (row col_er)) (Fin 0)"
    unfolding x[OF that(1)] using that(2) by (rule percent_nonneg)
  have dr: "jsge (er p) (Fin 0)"
    if "row col_er \<in> {Undefined, Null, CStr []}" "nonNegFinite (reactions p)"
    unfolding d[OF that(1)] using that(2) by (rule quotient_nonneg)
  have c: "views p = orNum (js_Number h (nullish (row col_views_day) (row col_views_total))) (Fin 0) \<and>
   reactions p = orNum (js_Number h (row col_reactions)) (Fin 0) \<and>
   views p \<noteq> NaN \<and> reactions p \<noteq> NaN \<and>
   (js_Number h (nullish (row col_views_day) (row col_views_total)) = NaN \<longrightarrow> views p = Fin 0) \<and>
   (js_Number h (row col_reactions) = NaN \<longrightarrow> reactions p = Fin 0) \<and>
   (\<not> jslt (js_Number h (nullish (row col_views_day) (row col_views_total))) (Fin 0) \<longrightarrow>
      jsge (views p) (Fin 0)) \<and>
   (\<not> jslt (js_Number h (row col_reactions)) (Fin 0) \<longrightarrow> jsge (reactions p) (Fin 0))"
    unfolding f(1) f(2) by (simp add: orNum_not_NaN orNum_NaN orNum_nonneg)
  show ?thesis using c x d xr dr by blast
qed

text \<open>
  Claim C8 as stated fails on a row with negative cells: nothing clamps them, and the
  record holds the views \<open>-5\<close>, the reactions \<open>-1\<close> and the rate \<open>-1/10\<close>.
\<close>

theorem counts_and_rate_counterexample:
  "mapRowToPost utcHost negative_row 0 = Inr (Some negative_post) \<and>
   views negative_post = Fin (- 5) \<and> reactions negative_post = Fin (- 1) \<and>
   er negative_post = Fin (- 1 / 10)"
  using negative_eval by (simp add: negative_post_def)

text \<open>
  The first example row, without the cell, has the rate \<open>10 / 100\<close>; the row with the cell
  25 has the rate \<open>25 / 100\<close>, whatever its reactions and views.
\<close>

theorem counts_and_rate_witness:
  "mapRowToPost utcHost example_row_1 0 = Inr (Some example_post_1) \<and>
   js_Number utcHost (nullish (example_row_1 col_views_day) (example_row_1 col_views_total)) = Fin 100 \<and>
   js_Number utcHost (example_row_1 col_reactions) = Fin 10 \<and>
   example_row_1 col_er = CStr [] \<and>
   jsge (views example_post_1) (Fin 0) \<and> jsge (reactions example_post_1) (Fin 0) \<and>
   nonNegFinite (reactions example_post_1) \<and> jsge (er example_post_1) (Fin 0) \<and>
   er example_post_1 = jsdiv (Fin 10) (Fin 100) \<and>
   mapRowToPost utcHost percent_row 0 = Inr (Some percent_post) \<and>
   percent_row col_er = CNum (Fin 25) \<and> js_Number utcHost (percent_row col_er) = Fin 25 \<and>
   er percent_post = jsdiv (Fin 25) (Fin 100) \<and> nonNegFinite (er percent_post)"
proof -
  have c: "example_row_1 col_views_day = CNum (Fin 100)" "example_row_1 col_reactions = CNum (Fin 10)"
    "example_row_1 col_er = CStr []"
    by (simp_all add: example_row_1_def col_views_day_def col_reactions_def col_er_def
        col_post_type_def)
  have r: "nonNegFinite (reactions example_post_1)"
    by (simp add: example_post_1_def nonNegFinite_def)
  have e: "percent_row col_er = CNum (Fin 25)"
    by (simp add: percent_row_def)
  have v: "views example_post_1 = Fin 100" "reactions example_post_1 = Fin 10"
    by (simp_all add: example_post_1_def)
  have a: "jsge (views example_post_1) (Fin 0) \<and> jsge (reactions example_post_1) (Fin 0) \<and>
     jsge (er example_post_1) (Fin 0) \<and> er example_post_1 = jsdiv (Fin 10) (Fin 100)"
    using counts_and_rate[OF example_1_eval] c r
    by (simp add: v orNum_def truthyNum_def jsge_def jsgt_def)
  have b: "er percent_post = jsdiv (Fin 25) (Fin 100) \<and> nonNegFinite (er percent_post)"
    using counts_and_rate[OF percent_eval] e by (simp add: nonNegFinite_def)
  show ?thesis using a b c r e example_1_eval percent_eval
    by (simp add: jsge_def nonNegFinite_def)
qed

section \<open>Properties of the ingestion\<close>

text \<open>
  When every row is skipped or yields a record with a valid date, the store is the stable
  sort of the records by time value: a permutation, ascending, and records of one time
  value keep their input order.
\<close>

lemma upload_valid_sorted:
  assumes "parseRows h rows 0 [] = Inr parsed" and "\<forall>p\<in>set parsed. dateObj p \<noteq> InvalidDate"
  shows "\<exists>st'. handleFileUpload h rows st = Inr st' \<and> posts st' = sort_key timeMs parsed \<and>
           mset (posts st') = mset parsed \<and> sorted (map timeMs (posts st')) \<and>
           (\<forall>t. filter (\<lambda>p. timeMs p = t) (posts st') = filter (\<lambda>p. timeMs p = t) parsed)"
proof -
  have "jsSort byTime parsed = sort_key timeMs parsed"
    using assms(2) by (intro jsSort_sort_key) (simp add: byTime_valid)
  then show ?thesis
    using assms(1) by (simp add: handleFileUpload_def sort_key_stable)
qed

text \<open>
  Claim C7 at two failing inputs, on the UTC host. A time cell with the text \<open>Infinity\<close>
  is converted to the number \<open>Infinity\<close>, which \<open>|| 0\<close> lets through, and \<open>setHours\<close> makes
  the date invalid. With a date serial in the date cell, \<open>toISOString\<close> then raises a
  RangeError and the upload installs no store. With a date string, the record enters the
  store with the time value \<open>NaN\<close>: between a post of 7 January and one of 1 January it
  leaves the store in the order 7 January, \<open>NaN\<close>, 1 January.
\<close>

theorem upload_bad_time:
  "handleFileUpload utcHost [example_row_1, bad_time_row, example_row_3] initial_state =
     Inl RangeError \<and>
   map_sum id (\<lambda>s. map (\<lambda>p. getTime (dateObj p)) (posts s))
     (handleFileUpload utcHost [example_row_3, bad_time_row_text, example_row_1] initial_state) =
     Inr [Fin 1704618000000, NaN, Fin 1704103200000]"
  by code_simp

section \<open>Properties of the Filter Stage\<close>

lemma keepPost_spec:
  "keepPost sm st sw =
     (\<lambda>p. selectorAllows sm (Some (monthKey p)) \<and> selectorAllows st (Some (postType p)) \<and>
          selectorAllows sw (weekdayLabel p))"
  by (auto simp: keepPost_def selectorAllows_def fun_eq_iff)

text \<open>
  Claim C6. The filter returns the records of the store that every selector lets pass,
  where a selector lets a record pass when it is \<open>all\<close> or equal to the record's month key,
  post type or weekday label; the result is a subsequence of the store, in store order;
  with three selectors \<open>all\<close> it is the store itself.
\<close>

theorem filter_stage:
  "filteredPosts st =
     filter (\<lambda>p. selectorAllows (selectedMonth st) (Some (monthKey p)) \<and>
                 selectorAllows (selectedPostType st) (Some (postType p)) \<and>
                 selectorAllows (selectedWeekday st) (weekdayLabel p)) (posts st)
   \<and> subseq (filteredPosts st) (posts st)
   \<and> filteredPosts (st\<lparr>selectedMonth := ''all'', selectedPostType := ''all'',
                        selectedWeekday := ''all''\<rparr>) = posts st"
  by (simp add: filteredPosts_def keepPost_spec) (simp add: selectorAllows_def)

section \<open>Properties of the KPI summary\<close>

text \<open>
  Claim C5. On the empty set the four outputs are 0. Otherwise \<open>totalPosts\<close> is the number
  of records and each of the three averages is the mean of its field over the records:
  the sum of the views, of the reactions, of the engagement rates, taken in list order
  from 0, divided by the number of records. The mean is the one the language computes,
  with its additions and its division; the rate stays a fraction, since nothing
  multiplies it by 100.
\<close>

theorem kpi_summary:
  "kpi [] = \<lparr>totalPosts = 0, avgViews = Fin 0, avgReactions = Fin 0, avgEr = Fin 0\<rparr> \<and>
   (fp \<noteq> [] \<longrightarrow>
      kpi fp = \<lparr>totalPosts = length fp, avgViews = jsMean (map views fp),
                avgReactions = jsMean (map reactions fp), avgEr = jsMean (map er fp)\<rparr>)"
  by (simp add: kpi_def jsMean_def jsSum_def foldl_map Let_def)

text \<open>
  The scenario of the specification: two records with the views 100 and 50 and the
  reactions 10 and 25 have the averages 75 and 17.5, and the average rate is the sum of
  the two rates divided by 2.
\<close>

theorem kpi_summary_witness:
  "[example_post_1, example_post_2] \<noteq> [] \<and>
   kpi [example_post_1, example_post_2] =
     \<lparr>totalPosts = 2, avgViews = Fin 75, avgReactions = Fin (35 / 2),
      avgEr = jsdiv (jsadd (jsadd (Fin 0) (er example_post_1)) (er example_post_2)) (Fin 2)\<rparr>"
  using kpi_summary[of "[example_post_1, example_post_2]"]
  by (simp add: jsMean_def jsSum_def num_def example_post_1_def example_post_2_def)

section \<open>Properties of the grouped-by-weekday aggregators\<close>

lemma viewsByWeekdayStep_group: "viewsByWeekdayStep = groupStep weekdayIndex wvInit wvUpd"
  unfolding fun_eq_iff viewsByWeekdayStep_def groupStep_def Let_def wvInit_def wvUpd_def
  by (intro allI) (rule refl)

lemma erByWeekdayStep_group: "erByWeekdayStep = groupStep weekdayIndex weInit weUpd"
  unfolding fun_eq_iff erByWeekdayStep_def groupStep_def Let_def weInit_def weUpd_def
  by (intro allI) (rule refl)

lemma foldl_wv:
  "foldl wvUpd c ps =
   c\<lparr>wv_viewsSum := foldl jsadd (wv_viewsSum c) (map views ps),
     wv_count := wv_count c + length ps\<rparr>"
  by (induction ps arbitrary: c) (simp_all add: wvUpd_def)

lemma foldl_we:
  "foldl weUpd c ps =
   c\<lparr>we_erSum := foldl jsadd (we_erSum c) (map er ps),
     we_count := we_count c + length ps\<rparr>"
  by (induction ps arbitrary: c) (simp_all add: weUpd_def)

lemma views_entries:
  "\<exists>es. viewsByWeekdayEntries fp = Inr es \<and>
     viewsByWeekday fp = Inr (map viewsByWeekdayRow es) \<and>
     distinct (map fst es) \<and> fst ` set es = weekdayIndex ` set fp \<and>
     (\<forall>e\<in>set es.
        vw_weekday (viewsByWeekdayRow e) = weekdayLabel (hd (onWeekday (fst e) fp)) \<and>
        vw_avgViews (viewsByWeekdayRow e) = jsMean (map views (onWeekday (fst e) fp))) \<and>
     ((\<forall>p\<in>set fp. isFinite (weekdayIndex p)) \<longrightarrow> sorted_wrt jslt (map fst es))"
proof -
  obtain m where loop: "foldE (groupStep weekdayIndex wvInit wvUpd) [] fp = Inr m"
    and keys: "fst ` set m = weekdayIndex ` set fp"
    and dist: "distinct (map fst m)"
    and vals: "\<forall>k. map_of m k =
                 groupVal wvInit wvUpd None (filter (\<lambda>p. weekdayIndex p = k) fp)"
    using group_loop_empty[of weekdayIndex wvInit wvUpd fp] by blast
  let ?es = "jsSort byKey m"
  have es: "viewsByWeekdayEntries fp = Inr ?es"
    using loop by (simp add: viewsByWeekdayEntries_def viewsByWeekdayStep_group)
  then have out: "viewsByWeekday fp = Inr (map viewsByWeekdayRow ?es)"
    by (simp add: viewsByWeekday_def)
  have d: "distinct (map fst ?es)"
    using dist by (simp add: distinct_keys_jsSort)
  have ks: "fst ` set ?es = weekdayIndex ` set fp"
    using keys by (simp add: set_jsSort)
  have rows: "\<forall>e\<in>set ?es.
        vw_weekday (viewsByWeekdayRow e) = weekdayLabel (hd (onWeekday (fst e) fp)) \<and>
        vw_avgViews (viewsByWeekdayRow e) = jsMean (map views (onWeekday (fst e) fp))"
  proof
    fix e assume "e \<in> set ?es"
    then have e: "e \<in> set m" by (simp add: set_jsSort)
    let ?ps = "onWeekday (fst e) fp"
    have ne: "?ps \<noteq> []" and v: "snd e = foldl wvUpd (wvInit (hd ?ps)) ?ps"
      using group_entry[OF dist vals e] unfolding onWeekday_def by blast+
    have v': "snd e = (wvInit (hd ?ps))\<lparr>wv_viewsSum := foldl jsadd (Fin 0) (map views ?ps),
                 wv_count := length ?ps\<rparr>"
      unfolding v foldl_wv by (simp add: wvInit_def)
    have "0 < length ?ps" using ne by simp
    then show "vw_weekday (viewsByWeekdayRow e) = weekdayLabel (hd ?ps) \<and>
        vw_avgViews (viewsByWeekdayRow e) = jsMean (map views ?ps)"
      by (simp add: viewsByWeekdayRow_def v' jsMean_def jsSum_def wvInit_def)
  qed
  have srt: "(\<forall>p\<in>set fp. isFinite (weekdayIndex p)) \<longrightarrow> sorted_wrt jslt (map fst ?es)"
  proof
    assume fin: "\<forall>p\<in>set fp. isFinite (weekdayIndex p)"
    have "\<forall>e\<in>set m. isFinite (fst e)"
    proof
      fix e assume "e \<in> set m"
      then have "fst e \<in> weekdayIndex ` set fp" using keys by force
      then show "isFinite (fst e)" using fin by auto
    qed
    then show "sorted_wrt jslt (map fst ?es)"
      using dist by (rule sorted_keys)
  qed
  show ?thesis using es out d ks rows srt by blast
qed

lemma er_entries:
  "\<exists>es. erByWeekdayEntries fp = Inr es \<and>
     erByWeekday fp = Inr (map erByWeekdayRow es) \<and>
     distinct (map fst es) \<and> fst ` set es = weekdayIndex ` set fp \<and>
     (\<forall>e\<in>set es.
        ew_weekday (erByWeekdayRow e) = weekdayLabel (hd (onWeekday (fst e) fp)) \<and>
        ew_avgErPercent (erByWeekdayRow e) =
          jsmul (jsMean (map er (onWeekday (fst e) fp))) (Fin 100)) \<and>
     ((\<forall>p\<in>set fp. isFinite (weekdayIndex p)) \<longrightarrow> sorted_wrt jslt (map fst es))"
proof -
  obtain m where loop: "foldE (groupStep weekdayIndex weInit weUpd) [] fp = Inr m"
    and keys: "fst ` set m = weekdayIndex ` set fp"
    and dist: "distinct (map fst m)"
    and vals: "\<forall>k. map_of m k =
                 groupVal weInit weUpd None (filter (\<lambda>p. weekdayIndex p = k) fp)"
    using group_loop_empty[of weekdayIndex weInit weUpd fp] by blast
  let ?es = "jsSort byKey m"
  have es: "erByWeekdayEntries fp = Inr ?es"
    using loop by (simp add: erByWeekdayEntries_def erByWeekdayStep_group)
  then have out: "erByWeekday fp = Inr (map erByWeekdayRow ?es)"
    by (simp add: erByWeekday_def)
  have d: "distinct (map fst ?es)"
    using dist by (simp add: distinct_keys_jsSort)
  have ks: "fst ` set ?es = weekdayIndex ` set fp"
    using keys by (simp add: set_jsSort)
  have rows: "\<forall>e\<in>set ?es.
        ew_weekday (erByWeekdayRow e) = weekdayLabel (hd (onWeekday (fst e) fp)) \<and>
        ew_avgErPercent (erByWeekdayRow e) =
          jsmul (jsMean (map er (onWeekday (fst e) fp))) (Fin 100)"
  proof
    fix e assume "e \<in> set ?es"
    then have e: "e \<in> set m" by (simp add: set_jsSort)
    let ?ps = "onWeekday (fst e) fp"
    have ne: "?ps \<noteq> []" and v: "snd e = foldl weUpd (weInit (hd ?ps)) ?ps"
      using group_entry[OF dist vals e] unfolding onWeekday_def by blast+
    have v': "snd e = (weInit (hd ?ps))\<lparr>we_erSum := foldl jsadd (Fin 0) (map er ?ps),
                 we_count := length ?ps\<rparr>"
      unfolding v foldl_we by (simp add: weInit_def)
    have "0 < length ?ps" using ne by simp
    then show "ew_weekday (erByWeekdayRow e) = weekdayLabel (hd ?ps) \<and>
        ew_avgErPercent (erByWeekdayRow e) = jsmul (jsMean (map er ?ps)) (Fin 100)"
      by (simp add: erByWeekdayRow_def v' jsMean_def jsSum_def weInit_def)
  qed
  have srt: "(\<forall>p\<in>set fp. isFinite (weekdayIndex p)) \<longrightarrow> sorted_wrt jslt (map fst ?es)"
  proof
    assume fin: "\<forall>p\<in>set fp. isFinite (weekdayIndex p)"
    have "\<forall>e\<in>set m. isFinite (fst e)"
    proof
      fix e assume "e \<in> set m"
      then have "fst e \<in> weekdayIndex ` set fp" using keys by force
      then show "isFinite (fst e)" using fin by auto
    qed
    then show "sorted_wrt jslt (map fst ?es)"
      using dist by (rule sorted_keys)
  qed
  show ?thesis using es out d ks rows srt by blast
qed

text \<open>
  On every record set, each weekday aggregator returns one row per weekday index that
  occurs among the records and no row for an index that does not occur. A row holds
  the label of the first record of its index and the mean of the views (the mean of the
  engagement rates, times 100) of the records of its index. When every record has a
  finite weekday index, the rows are in strictly ascending order of the index.
\<close>

theorem weekday_groups:
  "\<exists>es es'.
     viewsByWeekdayEntries fp = Inr es \<and>
     viewsByWeekday fp = Inr (map viewsByWeekdayRow es) \<and>
     distinct (map fst es) \<and> fst ` set es = weekdayIndex ` set fp \<and>
     (\<forall>e\<in>set es.
        vw_weekday (viewsByWeekdayRow e) = weekdayLabel (hd (onWeekday (fst e) fp)) \<and>
        vw_avgViews (viewsByWeekdayRow e) = jsMean (map views (onWeekday (fst e) fp))) \<and>
     erByWeekdayEntries fp = Inr es' \<and>
     erByWeekday fp = Inr (map erByWeekdayRow es') \<and>
     distinct (map fst es') \<and> fst ` set es' = weekdayIndex ` set fp \<and>
     (\<forall>e\<in>set es'.
        ew_weekday (erByWeekdayRow e) = weekdayLabel (hd (onWeekday (fst e) fp)) \<and>
        ew_avgErPercent (erByWeekdayRow e) =
          jsmul (jsMean (map er (onWeekday (fst e) fp))) (Fin 100)) \<and>
     ((\<forall>p\<in>set fp. isFinite (weekdayIndex p)) \<longrightarrow>
        sorted_wrt jslt (map fst es) \<and> sorted_wrt jslt (map fst es'))"
  using views_entries[of fp] er_entries[of fp] by (elim exE conjE) (intro exI conjI impI; simp)

text \<open>Two Monday posts and a later Sunday post: the Sunday row comes first.\<close>

theorem weekday_groups_witness:
  "isFinite (weekdayIndex example_post_1) \<and> isFinite (weekdayIndex example_post_2) \<and>
   isFinite (weekdayIndex example_post_3) \<and>
   map weekdayIndex [example_post_1, example_post_2, example_post_3] = [Fin 1, Fin 1, Fin 0] \<and>
   viewsByWeekday [example_post_1, example_post_2, example_post_3] =
     Inr [\<lparr>vw_weekday = Some (WEEKDAYS ! 0), vw_avgViews = Fin 30\<rparr>,
          \<lparr>vw_weekday = Some (WEEKDAYS ! 1), vw_avgViews = Fin 75\<rparr>] \<and>
   erByWeekday [example_post_1, example_post_2, example_post_3] =
     Inr [\<lparr>ew_weekday = Some (WEEKDAYS ! 0), ew_avgErPercent = Fin 10\<rparr>,
          \<lparr>ew_weekday = Some (WEEKDAYS ! 1), ew_avgErPercent = Fin 30\<rparr>]"
proof -
  have w: "weekdayIndex example_post_1 = Fin 1" "weekdayIndex example_post_2 = Fin 1"
    "weekdayIndex example_post_3 = Fin 0"
    by (simp_all add: example_post_1_def example_post_2_def example_post_3_def)
  show ?thesis
    using weekday_groups[of "[example_post_1, example_post_2, example_post_3]"]
      weekday_example_eval w
    by simp
qed

text \<open>
  Claim C9 at a failing input. The upload of a Monday row, a row with the time cell
  \<open>Infinity\<close> and a Sunday row installs a store whose second record has an invalid date and
  the weekday index \<open>NaN\<close>. On this store, unfiltered, both weekday aggregators return
  three rows in the order Monday, no label, Sunday: a row that belongs to no weekday, and
  Monday's row before Sunday's.
\<close>

theorem weekday_invalid_index:
  "map_sum id filteredPosts
     (handleFileUpload utcHost [example_row_1, bad_time_row_text, example_row_3] initial_state) =
     Inr [example_post_1, invalid_post, example_post_3] \<and>
   map weekdayIndex [example_post_1, invalid_post, example_post_3] = [Fin 1, NaN, Fin 0] \<and>
   map_sum id (map vw_weekday) (viewsByWeekday [example_post_1, invalid_post, example_post_3]) =
     Inr [Some (WEEKDAYS ! 1), None, Some (WEEKDAYS ! 0)] \<and>
   map_sum id (map ew_weekday) (erByWeekday [example_post_1, invalid_post, example_post_3]) =
     Inr [Some (WEEKDAYS ! 1), None, Some (WEEKDAYS ! 0)]"
proof -
  have "map weekdayIndex [example_post_1, invalid_post, example_post_3] = [Fin 1, NaN, Fin 0] \<and>
   map_sum id (map vw_weekday) (viewsByWeekday [example_post_1, invalid_post, example_post_3]) =
     Inr [Some (WEEKDAYS ! 1), None, Some (WEEKDAYS ! 0)] \<and>
   map_sum id (map ew_weekday) (erByWeekday [example_post_1, invalid_post, example_post_3]) =
     Inr [Some (WEEKDAYS ! 1), None, Some (WEEKDAYS ! 0)]"
    by code_simp
  moreover have "map_sum id filteredPosts
     (handleFileUpload utcHost [example_row_1, bad_time_row_text, example_row_3] initial_state) =
     Inr [example_post_1, invalid_post, example_post_3]"
    unfolding upload_text_eval by (simp add: filteredPosts_def keepPost_def initial_state_def)
  ultimately show ?thesis by simp
qed

section \<open>Properties of the gap-bucket and time-of-day aggregators\<close>

lemma initAggs_gap_keys: "map fst (initAggs GAP_BUCKETS) = map b_id GAP_BUCKETS"
  by (simp add: initAggs_def GAP_BUCKETS_def)

lemma initAggs_seg_keys: "map fst (initAggs TIME_SEGMENTS) = map b_id TIME_SEGMENTS"
  by (simp add: initAggs_def TIME_SEGMENTS_def)

lemma initAggs_gap_count: "totalCount (initAggs GAP_BUCKETS) = 0"
  by (simp add: initAggs_def GAP_BUCKETS_def totalCount_def)

lemma initAggs_seg_count: "totalCount (initAggs TIME_SEGMENTS) = 0"
  by (simp add: initAggs_def TIME_SEGMENTS_def totalCount_def)


lemma gapBucket_in: "gapBucket g \<in> set GAP_BUCKETS"
  by (auto simp: gapBucket_def GAP_BUCKETS_def split: option.splits dest!: find_Some_iff[THEN iffD1] simp: nth_Cons')

lemma segmentOf_in: "segmentOf g \<in> set TIME_SEGMENTS"
  by (auto simp: segmentOf_def split: option.splits dest!: find_Some_iff[THEN iffD1]) (simp add: TIME_SEGMENTS_def)

lemma seg_key: "map fst m = map b_id TIME_SEGMENTS \<Longrightarrow> \<exists>a. map_of m (b_id (segmentOf g)) = Some a"
proof -
  assume k: "map fst m = map b_id TIME_SEGMENTS"
  have "b_id (segmentOf g) \<in> b_id ` set TIME_SEGMENTS"
    using segmentOf_in[of g] by (rule imageI)
  then have "b_id (segmentOf g) \<in> set (map fst m)"
    unfolding k by simp
  then show ?thesis by (rule key_present)
qed

lemma gap_key: "map fst m = map b_id GAP_BUCKETS \<Longrightarrow> \<exists>a. map_of m (b_id (gapBucket g)) = Some a"
proof -
  assume k: "map fst m = map b_id GAP_BUCKETS"
  have "b_id (gapBucket g) \<in> b_id ` set GAP_BUCKETS"
    using gapBucket_in[of g] by (rule imageI)
  then have "b_id (gapBucket g) \<in> set (map fst m)"
    unfolding k by simp
  then show ?thesis by (rule key_present)
qed

lemma gapBucket_range: "gapBucket g = GAP_BUCKETS ! gapRange g"
proof (cases g)
  case (Fin x)
  then show ?thesis
    by (simp add: gapBucket_def gapRange_def GAP_BUCKETS_def inBucket_def jsge_def)
qed (simp_all add: gapBucket_def gapRange_def GAP_BUCKETS_def inBucket_def jsge_def)



lemma totalCount_mapSet:
  "map_of m k = Some a \<Longrightarrow>
   totalCount (mapSet k v m) + ba_count a = totalCount m + ba_count v"
  by (induction m) (auto simp: totalCount_def split: if_splits)

lemma addToBucket_count:
  "map_of m k = Some a \<Longrightarrow>
   \<exists>m'. addToBucket k p m = Inr m' \<and> map fst m' = map fst m \<and> totalCount m' = totalCount m + 1"
  using totalCount_mapSet[of m k a "a\<lparr>ba_viewsSum := jsadd (ba_viewsSum a) (views p),
                             ba_erSum := jsadd (ba_erSum a) (er p),
                             ba_count := ba_count a + 1\<rparr>"]
  by (simp add: addToBucket_def keys_mapSet_present)


lemma timeOfDay_loop:
  "map fst m = map b_id TIME_SEGMENTS \<Longrightarrow>
   \<exists>m'. foldE timeOfDayStep m fp = Inr m' \<and> map fst m' = map b_id TIME_SEGMENTS \<and>
        totalCount m' = totalCount m + length fp"
proof (induction fp arbitrary: m)
  case Nil
  then show ?case by simp
next
  case (Cons p fp)
  obtain a where a: "map_of m (b_id (segmentOf (hour p))) = Some a"
    using seg_key[OF Cons.prems] by blast
  obtain m1 where
    m1: "timeOfDayStep m p = Inr m1" and k1: "map fst m1 = map fst m"
    and c1: "totalCount m1 = totalCount m + 1"
    using addToBucket_count[OF a, of p] unfolding timeOfDayStep_def by blast
  have k1': "map fst m1 = map b_id TIME_SEGMENTS"
    using k1 Cons.prems by simp
  obtain m' where "foldE timeOfDayStep m1 fp = Inr m'" "map fst m' = map b_id TIME_SEGMENTS"
    "totalCount m' = totalCount m1 + length fp"
    using Cons.IH[OF k1'] by blast
  then show ?case using m1 c1 by simp
qed

lemma gapLoop_count:
  "map fst m = map b_id GAP_BUCKETS \<Longrightarrow>
   \<exists>m'. gapLoop xs m = Inr m' \<and> map fst m' = map b_id GAP_BUCKETS \<and>
        totalCount m' = totalCount m + (length xs - 1)"
proof (induction xs m rule: gapLoop.induct)
  case (1 prev cur rest m)
  let ?k = "b_id (gapBucket (gapHours prev cur))"
  obtain a where a: "map_of m ?k = Some a"
    using gap_key[OF "1.prems"] by blast
  obtain m1 where
    m1: "addToBucket ?k cur m = Inr m1" and k1: "map fst m1 = map fst m"
    and c1: "totalCount m1 = totalCount m + 1"
    using addToBucket_count[OF a, of cur] by blast
  have k1': "map fst m1 = map b_id GAP_BUCKETS"
    using k1 "1.prems" by simp
  obtain m' where "gapLoop (cur # rest) m1 = Inr m'" "map fst m' = map b_id GAP_BUCKETS"
    "totalCount m' = totalCount m1 + (length (cur # rest) - 1)"
    using "1.IH"[OF m1 k1'] by blast
  then show ?case using m1 c1 by simp
qed simp_all

text \<open>
  Claim C1, as the code has it. The time-of-day aggregator counts every filtered record
  once: its per-bucket counts add up to the number of records. The gap-bucket aggregator
  counts the consecutive pairs of the sorted records, one fewer than the records: for two
  records or more its per-bucket counts add up to the number of records minus one. Both
  maps hold exactly the five buckets of their table, and neither loop raises.
\<close>

theorem bucket_counts:
  "(2 \<le> length fp \<longrightarrow>
      (\<exists>m. gapAggs fp = Inr m \<and> map fst m = map b_id GAP_BUCKETS \<and>
           totalCount m + 1 = length fp)) \<and>
   (\<exists>m. timeOfDayAggs fp = Inr m \<and> map fst m = map b_id TIME_SEGMENTS \<and>
        totalCount m = length fp)"
proof -
  obtain m where m: "gapLoop (jsSort byTime fp) (initAggs GAP_BUCKETS) = Inr m"
    "map fst m = map b_id GAP_BUCKETS"
    "totalCount m = totalCount (initAggs GAP_BUCKETS) + (length (jsSort byTime fp) - 1)"
    using gapLoop_count[OF initAggs_gap_keys] by blast
  have g: "2 \<le> length fp \<longrightarrow>
      (\<exists>m. gapAggs fp = Inr m \<and> map fst m = map b_id GAP_BUCKETS \<and>
           totalCount m + 1 = length fp)"
    using m by (auto simp add: gapAggs_def length_jsSort initAggs_gap_count)
  obtain m2 where m2: "foldE timeOfDayStep (initAggs TIME_SEGMENTS) fp = Inr m2"
    "map fst m2 = map b_id TIME_SEGMENTS"
    "totalCount m2 = totalCount (initAggs TIME_SEGMENTS) + length fp"
    using timeOfDay_loop[OF initAggs_seg_keys] by blast
  have t: "\<exists>m. timeOfDayAggs fp = Inr m \<and> map fst m = map b_id TIME_SEGMENTS \<and>
        totalCount m = length fp"
    using m2 by (simp add: timeOfDayAggs_def initAggs_seg_count)
  show ?thesis using g t by (rule conjI)
qed

text \<open>
  Claim C1 as stated fails for the gap-bucket aggregator: on the two example posts, twelve
  hours apart, its counts add up to 1, not to 2.
\<close>

theorem bucket_counts_counterexample:
  "map_sum id totalCount (gapAggs [example_post_1, example_post_2]) = Inr 1 \<and>
   length [example_post_1, example_post_2] = 2"
  by (simp add: gapAggs_def ex_sorted ex_gap gapBucket_range gapRange_def
      addToBucket_def initAggs_def GAP_BUCKETS_def totalCount_def)

theorem bucket_counts_witness:
  "2 \<le> length [example_post_1, example_post_2] \<and>
   map_sum id totalCount (gapAggs [example_post_1, example_post_2]) = Inr 1 \<and>
   map_sum id totalCount (timeOfDayAggs [example_post_1, example_post_2]) = Inr 2"
  using bucket_counts[of "[example_post_1, example_post_2]"]
  by auto


















section \<open>Properties of the heatmap\<close>

lemma heatStep_group: "heatStep = groupStep postKey heatInit heatUpd"
  unfolding fun_eq_iff heatStep_def groupStep_def postKey_def Let_def heatInit_def heatUpd_def
  by (intro allI) (rule refl)

lemma foldl_heat:
  "foldl heatUpd c ps =
   c\<lparr>ha_viewsSum := foldl jsadd (ha_viewsSum c) (map views ps),
     ha_count := ha_count c + length ps\<rparr>"
  by (induction ps arbitrary: c) (simp_all add: heatUpd_def)

lemma heat_cells:
  assumes "foldE heatStep [] fp = Inr m"
  shows "distinct (map fst m)" "fst ` set m = postKey ` set fp"
    "\<forall>e\<in>set m. cellKey (heatCell (snd e)) = fst e \<and>
       hc_avgViews (heatCell (snd e)) =
         jsMean (map views (filter (\<lambda>p. postKey p = fst e) fp))"
proof -
  obtain m' where loop: "foldE (groupStep postKey heatInit heatUpd) [] fp = Inr m'"
    and keys: "fst ` set m' = postKey ` set fp"
    and dist: "distinct (map fst m')"
    and vals: "\<forall>k. map_of m' k =
                 groupVal heatInit heatUpd None (filter (\<lambda>p. postKey p = k) fp)"
    using group_loop_empty[of postKey heatInit heatUpd fp] by blast
  have mm: "m' = m" using loop assms by (simp add: heatStep_group)
  show d: "distinct (map fst m)" using dist mm by simp
  show "fst ` set m = postKey ` set fp" using keys mm by simp
  show "\<forall>e\<in>set m. cellKey (heatCell (snd e)) = fst e \<and>
       hc_avgViews (heatCell (snd e)) =
         jsMean (map views (filter (\<lambda>p. postKey p = fst e) fp))"
  proof
    fix e assume e: "e \<in> set m"
    let ?ps = "filter (\<lambda>p. postKey p = fst e) fp"
    have "map_of m (fst e) = Some (snd e)"
      using e d by simp
    moreover have "map_of m (fst e) = groupVal heatInit heatUpd None ?ps"
      using vals mm by blast
    ultimately have g: "groupVal heatInit heatUpd None ?ps = Some (snd e)"
      by simp
    have ne: "?ps \<noteq> []" and v: "snd e = foldl heatUpd (heatInit (hd ?ps)) ?ps"
      using groupVal_None_Some[OF g] by blast+
    have "hd ?ps \<in> set ?ps" using ne by (rule hd_in_set)
    then have k: "postKey (hd ?ps) = fst e" by simp
    have v': "snd e = (heatInit (hd ?ps))\<lparr>ha_viewsSum := foldl jsadd (Fin 0) (map views ?ps),
                 ha_count := length ?ps\<rparr>"
      unfolding v foldl_heat by (simp add: heatInit_def)
    have "0 < length ?ps" using ne by simp
    then show "cellKey (heatCell (snd e)) = fst e \<and>
       hc_avgViews (heatCell (snd e)) = jsMean (map views ?ps)"
      using k unfolding v'
      by (simp add: heatCell_def cellKey_def postKey_def jsMean_def jsSum_def heatInit_def)
  qed
qed

text \<open>
  Claim C4, as the code has it. The heatmap has one cell per pair of weekday index and
  hour that occurs among the records, holding the mean views of the records of the pair.
  \<open>maxViews\<close> is a maximum of the cell means when none of them is \<open>NaN\<close> and one is
  positive, and it is 1 otherwise: with no cell, and also with populated cells whose
  means are all 0.
\<close>

theorem heatmap_cells_max:
  "\<exists>hm. heatmapData fp = Inr hm \<and>
     distinct (map cellKey (cells hm)) \<and>
     cellKey ` set (cells hm) = postKey ` set fp \<and>
     (\<forall>c\<in>set (cells hm).
        hc_avgViews c = jsMean (map views (filter (\<lambda>p. postKey p = cellKey c) fp))) \<and>
     (positiveMeans (map hc_avgViews (cells hm)) \<longrightarrow>
        isMaxOf (maxViews hm) (map hc_avgViews (cells hm))) \<and>
     (\<not> positiveMeans (map hc_avgViews (cells hm)) \<longrightarrow> maxViews hm = Fin 1)"
proof -
  obtain m where m: "foldE heatStep [] fp = Inr m"
    using group_loop_empty[of postKey heatInit heatUpd fp] unfolding heatStep_group by blast
  note hc = heat_cells[OF m]
  let ?cs = "map (\<lambda>e. heatCell (snd e)) m"
  let ?hm = "\<lparr>cells = ?cs,
             maxViews = orNum (foldl (\<lambda>m c. Math_max m (hc_avgViews c)) (Fin 0) ?cs) (Fin 1)\<rparr>"
  have hd: "heatmapData fp = Inr ?hm"
    using m by (simp add: heatmapData_def Let_def)
  have keys: "map cellKey ?cs = map fst m"
    using hc(3) by (simp add: map_idI)
  have d: "distinct (map cellKey ?cs)" unfolding keys by (rule hc(1))
  have ks: "cellKey ` set ?cs = postKey ` set fp"
    using hc(2) keys by (metis list.set_map)
  have avg: "\<forall>c\<in>set ?cs.
        hc_avgViews c = jsMean (map views (filter (\<lambda>p. postKey p = cellKey c) fp))"
    using hc(3) by auto
  have mx: "foldl (\<lambda>m c. Math_max m (hc_avgViews c)) (Fin 0) ?cs =
            foldl Math_max (Fin 0) (map hc_avgViews ?cs)"
    by (simp add: foldl_map)
  have "distinct (map cellKey (cells ?hm)) \<and>
     cellKey ` set (cells ?hm) = postKey ` set fp \<and>
     (\<forall>c\<in>set (cells ?hm).
        hc_avgViews c = jsMean (map views (filter (\<lambda>p. postKey p = cellKey c) fp))) \<and>
     (positiveMeans (map hc_avgViews (cells ?hm)) \<longrightarrow>
        isMaxOf (maxViews ?hm) (map hc_avgViews (cells ?hm))) \<and>
     (\<not> positiveMeans (map hc_avgViews (cells ?hm)) \<longrightarrow> maxViews ?hm = Fin 1)"
    using d ks avg max_or_one[of "map hc_avgViews ?cs"] unfolding mx[symmetric]
    by simp
  then show ?thesis using hd by blast
qed

text \<open>
  The example of the specification: three records at weekday 1, hour 9 with the views
  10, 20, 30 give one cell with the mean 20, and \<open>maxViews\<close> is 20.
\<close>

theorem heatmap_cells_max_witness:
  "heatmapData example_heat_posts =
     Inr \<lparr>cells = [\<lparr>hc_weekdayIndex = Fin 1, hc_weekday = Some (WEEKDAYS ! 1), hc_hour = Fin 9,
                     hc_avgViews = Fin 20\<rparr>],
          maxViews = Fin 20\<rparr> \<and>
   map postKey example_heat_posts = [(Fin 1, Fin 9), (Fin 1, Fin 9), (Fin 1, Fin 9)] \<and>
   map views example_heat_posts = [Fin 10, Fin 20, Fin 30] \<and>
   positiveMeans [Fin 20] \<and> isMaxOf (Fin 20) [Fin 20]"
proof -
  have k: "map postKey example_heat_posts = [(Fin 1, Fin 9), (Fin 1, Fin 9), (Fin 1, Fin 9)]"
    "map views example_heat_posts = [Fin 10, Fin 20, Fin 30]"
    by (simp_all add: example_heat_posts_def zero_views_post_def postKey_def)
  have p: "positiveMeans [Fin 20]"
    by (simp add: positiveMeans_def jsgt_def)
  show ?thesis
    using heatmap_cells_max[of example_heat_posts] heat_example_eval k p by simp
qed

text \<open>
  Claim C4 as stated fails on one record with 0 views: its cell is populated, the largest
  mean is 0, and \<open>maxViews\<close> is 1.
\<close>

theorem heatmap_max_counterexample:
  "map_sum id (\<lambda>hm. (map cellKey (cells hm), map hc_avgViews (cells hm), maxViews hm))
     (heatmapData [zero_views_post]) = Inr ([(Fin 1, Fin 9)], [Fin 0], Fin 1)"
  by code_simp

end
